theory Spec2Isabelle
  imports Main
begin

section \<open>Strings of the host language\<close>

text \<open>
  Strings are modelled as lists of 8-bit characters.  \<open>toLowerCase\<close> acts on the
  letters \<open>A\<close> to \<open>Z\<close>; every other character of the model is left alone.  The only
  use of \<open>toLowerCase\<close> in the source is followed by the removal of every character
  outside \<open>[-a-z0-9]\<close>, so characters outside ASCII never reach the result.  Code units
  above 255, among them the two letters whose lower case contains an ASCII letter, are
  outside the model.
\<close>

definition toLowerCase_char :: "char \<Rightarrow> char" where
  "toLowerCase_char c =
     (case map_of (zip ''ABCDEFGHIJKLMNOPQRSTUVWXYZ'' ''abcdefghijklmnopqrstuvwxyz'') c of
        Some l \<Rightarrow> l
      | None \<Rightarrow> c)"

definition toLowerCase :: "string \<Rightarrow> string" where
  "toLowerCase s = map toLowerCase_char s"

text \<open>The character class \<open>[-a-z0-9]\<close> of the bucket-name regular expression.\<close>

definition bucket_char :: "char \<Rightarrow> bool" where
  "bucket_char c = (c \<in> set ''-abcdefghijklmnopqrstuvwxyz0123456789'')"

text \<open>
  \<open>s.replace(/[^-a-z0-9]*/g, "")\<close>: scanning from the left, the longest run of
  characters outside the class that starts at the current position is replaced by the
  empty string; where that run is empty the current character is copied and the scan
  advances by one.
\<close>

function replace_non_bucket_chars :: "string \<Rightarrow> string" where
  "replace_non_bucket_chars [] = []"
| "replace_non_bucket_chars (c # cs) =
     (if bucket_char c then c # replace_non_bucket_chars cs
      else replace_non_bucket_chars (dropWhile (\<lambda>d. \<not> bucket_char d) cs))"
  by pat_completeness auto
termination
  by (relation "measure length") (auto simp: le_imp_less_Suc length_dropWhile_le)

text \<open>
  \<open>s.replace(/--+/g, "-")\<close>: a match starts at a hyphen that is followed by a hyphen,
  extends over all the hyphens that follow, and is replaced by one hyphen.
\<close>

function replace_hyphen_runs :: "string \<Rightarrow> string" where
  "replace_hyphen_runs [] = []"
| "replace_hyphen_runs (c # cs) =
     (if c = CHR ''-'' \<and> take 1 cs = ''-''
      then CHR ''-'' # replace_hyphen_runs (dropWhile (\<lambda>d. d = CHR ''-'') cs)
      else c # replace_hyphen_runs cs)"
  by pat_completeness auto
termination
  by (relation "measure length") (auto simp: le_imp_less_Suc length_dropWhile_le)

text \<open>\<open>verb.replace(/e$/, "ing")\<close>: without the multiline flag \<open>$\<close> is the end of input.\<close>

definition replace_final_e :: "string \<Rightarrow> string" where
  "replace_final_e verb =
     (if verb \<noteq> [] \<and> last verb = CHR ''e'' then butlast verb @ ''ing'' else verb)"

text \<open>
  A template literal turns an absent value into the text \<open>undefined\<close>;
  \<open>Array.prototype.join\<close> turns it into the empty string.
\<close>

definition template_string :: "string option \<Rightarrow> string" where
  "template_string v = (case v of None \<Rightarrow> ''undefined'' | Some s \<Rightarrow> s)"

definition element_string :: "string option \<Rightarrow> string" where
  "element_string v = (case v of None \<Rightarrow> [] | Some s \<Rightarrow> s)"

fun join :: "string \<Rightarrow> string option list \<Rightarrow> string" where
  "join sep [] = []"
| "join sep [x] = element_string x"
| "join sep (x # y # ys) = element_string x @ sep @ join sep (y # ys)"

text \<open>
  \<open>a || b\<close> on an optional string and on an optional boolean: the left operand is
  taken unless it is falsy, that is absent, the empty string, or \<open>false\<close>.
\<close>

definition or_string :: "string option \<Rightarrow> string \<Rightarrow> string" where
  "or_string a b = (case a of None \<Rightarrow> b | Some s \<Rightarrow> if s = [] then b else s)"

definition or_bool :: "bool option \<Rightarrow> bool \<Rightarrow> bool" where
  "or_bool a b = (case a of None \<Rightarrow> b | Some v \<Rightarrow> if v then True else b)"

section \<open>Data model\<close>

text \<open>
  The \<open>cache\<close> block of \<open>GoogleCloudStorageCacheConfiguration\<close>: every field is
  optional.  \<open>CacheConfig\<close>, the \<open>Required\<close> form, is the same object at run time.
\<close>

record cache_block =
  bucket :: "string option"
  enabled :: "bool option"
  path :: "string option"

text \<open>
  Objects are mutable and passed by reference, and \<open>getCacheConfig\<close> assigns to the
  fields of the object it reads.  The heap maps references to cache blocks; \<open>{}\<close>
  allocates a new object with no field set.
\<close>

type_synonym ref = nat

record heap =
  objects :: "ref \<Rightarrow> cache_block"
  next_ref :: ref

definition empty_object :: cache_block where
  "empty_object = \<lparr>bucket = None, enabled = None, path = None\<rparr>"

definition new_object :: "heap \<Rightarrow> ref \<times> heap" where
  "new_object h =
     (next_ref h,
      h\<lparr>objects := (objects h)(next_ref h := empty_object), next_ref := Suc (next_ref h)\<rparr>)"

text \<open>
  The part of \<open>GoalInvocation\<close> that the module reads; a field is named by its access
  path, so \<open>gi.configuration.sdm.cache\<close> is \<open>configuration_sdm_cache\<close>.
\<close>

record GoalInvocation =
  configuration_name :: string
  configuration_sdm_cache :: "ref option"
  context_workspaceId :: string
  goalEvent_repo_providerId :: string
  goalEvent_repo_owner :: string
  goalEvent_repo_name :: string
  goalEvent_branch :: string
  goalEvent_sha :: string

section \<open>Cache configuration\<close>

text \<open>
  The default bucket name:
  \<^verbatim>\<open>`sdm-${gi.context.workspaceId}-${gi.configuration.name}-goal-cache`\<close>
  \<^verbatim>\<open>    .toLowerCase().replace(/[^-a-z0-9]*/g, "").replace(/--+/g, "-")\<close>
\<close>

definition default_bucket :: "string \<Rightarrow> string \<Rightarrow> string" where
  "default_bucket workspaceId name =
     replace_hyphen_runs (replace_non_bucket_chars (toLowerCase
       (''sdm-'' @ workspaceId @ ''-'' @ name @ ''-goal-cache'')))"

definition set_enabled :: "ref \<Rightarrow> bool \<Rightarrow> heap \<Rightarrow> heap" where
  "set_enabled r v h = h\<lparr>objects := (objects h)(r := (objects h r)\<lparr>enabled := Some v\<rparr>)\<rparr>"

definition set_bucket :: "ref \<Rightarrow> string \<Rightarrow> heap \<Rightarrow> heap" where
  "set_bucket r v h = h\<lparr>objects := (objects h)(r := (objects h r)\<lparr>bucket := Some v\<rparr>)\<rparr>"

definition set_path :: "ref \<Rightarrow> string \<Rightarrow> heap \<Rightarrow> heap" where
  "set_path r v h = h\<lparr>objects := (objects h)(r := (objects h r)\<lparr>path := Some v\<rparr>)\<rparr>"

text \<open>
  \<open>getCacheConfig\<close>, the same in both versions of the module.  It returns the
  reference it worked on and the heap after its three assignments.
\<close>

definition getCacheConfig :: "GoalInvocation \<Rightarrow> heap \<Rightarrow> ref \<times> heap" where
  "getCacheConfig gi h =
     (let (cacheConfig, h0) =
            (case configuration_sdm_cache gi of Some r \<Rightarrow> (r, h) | None \<Rightarrow> new_object h);
          h1 = set_enabled cacheConfig (or_bool (enabled (objects h0 cacheConfig)) False) h0;
          h2 = set_bucket cacheConfig
                 (or_string (bucket (objects h1 cacheConfig))
                    (default_bucket (context_workspaceId gi) (configuration_name gi))) h1;
          h3 = set_path cacheConfig (or_string (path (objects h2 cacheConfig)) ''goal-cache'') h2
      in (cacheConfig, h3))"

text \<open>The object that \<open>getCacheConfig\<close> returns, read from the heap it leaves.\<close>

definition resolved :: "GoalInvocation \<Rightarrow> heap \<Rightarrow> cache_block" where
  "resolved gi h = (let (cacheConfig, h') = getCacheConfig gi h in objects h' cacheConfig)"

text \<open>The cache block that \<open>getCacheConfig\<close> starts from.\<close>

definition supplied :: "GoalInvocation \<Rightarrow> heap \<Rightarrow> cache_block" where
  "supplied gi h =
     (case configuration_sdm_cache gi of Some r \<Rightarrow> objects h r | None \<Rightarrow> empty_object)"

section \<open>Object path, version of 2020\<close>

text \<open>
  \<open>getCachePath(cacheConfig, classifier = "default")\<close> joins the path prefix, the
  classifier and \<open>cache.tar.gz\<close> with slashes.
\<close>

definition getCachePath :: "cache_block \<Rightarrow> string option \<Rightarrow> string" where
  "getCachePath cacheConfig classifier =
     join ''/'' [path cacheConfig,
                 Some (case classifier of None \<Rightarrow> ''default'' | Some c \<Rightarrow> c),
                 Some ''cache.tar.gz'']"

section \<open>Object path, version of 2019\<close>

text \<open>
  The replacement text of \<open>String.prototype.replace\<close> is not taken literally:
  \<open>$$\<close> stands for a dollar sign, \<open>$&\<close> for the matched text, \<open>$`\<close> for the text
  before the match and \<open>$'\<close> for the text after it.  The patterns of the module have
  no capture group, so \<open>$1\<close> and the like stay as they are.
\<close>

fun expand_replacement :: "string \<Rightarrow> string \<Rightarrow> string \<Rightarrow> string \<Rightarrow> string" where
  "expand_replacement matched preceding following [] = []"
| "expand_replacement matched preceding following [c] = [c]"
| "expand_replacement matched preceding following (c # d # cs) =
     (if c = CHR ''$'' \<and> d = CHR ''$''
      then CHR ''$'' # expand_replacement matched preceding following cs
      else if c = CHR ''$'' \<and> d = CHR ''&''
      then matched @ expand_replacement matched preceding following cs
      else if c = CHR ''$'' \<and> d = CHR 0x60
      then preceding @ expand_replacement matched preceding following cs
      else if c = CHR ''$'' \<and> d = CHR 0x27
      then following @ expand_replacement matched preceding following cs
      else c # expand_replacement matched preceding following (d # cs))"

text \<open>
  \<open>s.replace(/pat/g, rep)\<close> for a pattern that is a literal, non-empty text, as
  \<open>/\$\{owner\}/g\<close> is: every occurrence, found from left to right without overlap,
  is replaced by the expanded replacement text.
\<close>

function replace_from :: "string \<Rightarrow> string \<Rightarrow> string \<Rightarrow> string \<Rightarrow> string" where
  "replace_from pat rep preceding [] = []"
| "replace_from pat rep preceding (c # cs) =
     (if pat \<noteq> [] \<and> take (length pat) (c # cs) = pat
      then expand_replacement pat preceding (drop (length pat) (c # cs)) rep
             @ replace_from pat rep (preceding @ pat) (drop (length pat) (c # cs))
      else c # replace_from pat rep (preceding @ [c]) cs)"
  by pat_completeness auto
termination
  by (relation "measure (\<lambda>(pat, rep, preceding, s). length s)") auto

definition replace_all :: "string \<Rightarrow> string \<Rightarrow> string \<Rightarrow> string" where
  "replace_all pat rep s = replace_from pat rep [] s"

text \<open>
  \<open>getCachePath(gi, classifier = "default")\<close> of the version of 2019 resolves the
  configuration itself, expands the placeholders of the classifier one after the other,
  and joins the path prefix, the workspace identifier, the expanded classifier and
  \<open>cache.tar.gz\<close>.
\<close>

definition getCachePath_2019 :: "GoalInvocation \<Rightarrow> string option \<Rightarrow> heap \<Rightarrow> string \<times> heap" where
  "getCachePath_2019 gi classifier h =
     (let (cacheConfig, h') = getCacheConfig gi h;
          classifierPath =
            replace_all ''${sha}'' (goalEvent_sha gi)
              (replace_all ''${branch}'' (goalEvent_branch gi)
                (replace_all ''${repo}'' (goalEvent_repo_name gi)
                  (replace_all ''${owner}'' (goalEvent_repo_owner gi)
                    (replace_all ''${providerId}'' (goalEvent_repo_providerId gi)
                      (case classifier of None \<Rightarrow> ''default'' | Some c \<Rightarrow> c)))));
          cachePath = join ''/'' [path (objects h' cacheConfig), Some (context_workspaceId gi),
                                  Some classifierPath, Some ''cache.tar.gz'']
      in (cachePath, h'))"

section \<open>Errors, logs and the state of a call\<close>

text \<open>
  An error carries a message, which the catch block overwrites.  The state of a call is
  the heap, the lines written by \<open>ll\<close> to the process-wide logger and to the progress
  log of the invocation, and the world outside: the object store and the local files.
  \<open>ll(msg, pl, l = logger.debug)\<close> writes one line to each log; writing is taken not to
  fail.
\<close>

record Error =
  message :: string

datatype LeveledLogMethod = logger_debug | logger_error

record 'w state =
  js_heap :: heap
  logger :: "(LeveledLogMethod \<times> string) list"
  progressLog :: "string list"
  world :: 'w

definition ll :: "string \<Rightarrow> LeveledLogMethod \<Rightarrow> 'w state \<Rightarrow> 'w state" where
  "ll msg l s = s\<lparr>logger := logger s @ [(l, msg)], progressLog := progressLog s @ [msg]\<rparr>"

text \<open>
  The client of \<open>@google-cloud/storage\<close> is outside the repository.  It is a parameter:
  a record of the three calls the module makes, \<open>bucket(b).upload(file, {destination})\<close>,
  \<open>bucket(b).file(p).download({destination})\<close> and \<open>bucket(b).file(p).delete()\<close>, each
  a function on the world that fails with an error or succeeds.  The bucket is passed
  as the field of the configuration object holds it.
\<close>

record 'w Storage =
  upload :: "string option \<Rightarrow> string \<Rightarrow> string \<Rightarrow> 'w \<Rightarrow> (Error + unit) \<times> 'w"
  download :: "string option \<Rightarrow> string \<Rightarrow> string \<Rightarrow> 'w \<Rightarrow> (Error + unit) \<times> 'w"
  delete_file :: "string option \<Rightarrow> string \<Rightarrow> 'w \<Rightarrow> (Error + unit) \<times> 'w"

type_synonym 'w GcsOp =
  "'w Storage \<Rightarrow> string option \<Rightarrow> string \<Rightarrow> 'w \<Rightarrow> (Error + unit) \<times> 'w"

text \<open>
  Modelled from the spec: \<open>doWithRetry\<close> is imported from
  \<open>@atomist/automation-client\<close> and is not part of the sources.  The specification
  asks for a bounded-retry policy: a failed call is tried again, a bounded number of
  times, before the failure is final.  The bound is the parameter \<open>retries\<close>; the call
  runs once and, as long as it fails, up to \<open>retries\<close> more times; the error of the last
  attempt is the final one.  The delays between attempts and the lines the library logs
  are left out.
\<close>

fun doWithRetry :: "nat \<Rightarrow> ('w \<Rightarrow> (Error + 'a) \<times> 'w) \<Rightarrow> 'w \<Rightarrow> (Error + 'a) \<times> 'w" where
  "doWithRetry 0 what w = what w"
| "doWithRetry (Suc n) what w =
     (case what w of
        (Inr v, w') \<Rightarrow> (Inr v, w')
      | (Inl e, w') \<Rightarrow> doWithRetry n what w')"

section \<open>The archive store, version of 2020\<close>

definition gcs ::
  "'w Storage \<Rightarrow> nat \<Rightarrow> GoalInvocation \<Rightarrow> string \<Rightarrow> 'w GcsOp \<Rightarrow> string \<Rightarrow> 'w state
     \<Rightarrow> (Error + unit) \<times> 'w state" where
  "gcs storage retries gi classifier op verb s =
     (let (cacheConfig, h) = getCacheConfig gi (js_heap s);
          s0 = s\<lparr>js_heap := h\<rparr>;
          cachePath = getCachePath (objects h cacheConfig) (Some classifier);
          objectUri = ''gs://'' @ template_string (bucket (objects h cacheConfig)) @ ''/''
                        @ cachePath;
          gerund = replace_final_e verb;
          s1 = ll (gerund @ '' cache archive '' @ objectUri) logger_debug s0;
          (r, w) = doWithRetry retries
                     (op storage (bucket (objects h cacheConfig)) cachePath) (world s1);
          s2 = s1\<lparr>world := w\<rparr>
      in case r of
           Inr v \<Rightarrow> (Inr (), ll (verb @ ''d cache archive '' @ objectUri) logger_debug s2)
         | Inl e \<Rightarrow>
             (let e' = e\<lparr>message := ''Failed to '' @ verb @ '' cache archive '' @ objectUri
                                      @ '': '' @ message e\<rparr>;
                  s3 = ll (message e') logger_error s2
              in if verb = ''retrieve'' then (Inl e', s3) else (Inr (), s3)))"

definition store ::
  "'w Storage \<Rightarrow> nat \<Rightarrow> GoalInvocation \<Rightarrow> string \<Rightarrow> string \<Rightarrow> 'w state
     \<Rightarrow> (Error + unit) \<times> 'w state" where
  "store storage retries gi classifier archivePath =
     gcs storage retries gi classifier
       (\<lambda>storage bucket cachePath. upload storage bucket archivePath cachePath) ''store''"

definition delete ::
  "'w Storage \<Rightarrow> nat \<Rightarrow> GoalInvocation \<Rightarrow> string \<Rightarrow> 'w state
     \<Rightarrow> (Error + unit) \<times> 'w state" where
  "delete storage retries gi classifier =
     gcs storage retries gi classifier
       (\<lambda>storage bucket cachePath. delete_file storage bucket cachePath) ''delete''"

definition retrieve ::
  "'w Storage \<Rightarrow> nat \<Rightarrow> GoalInvocation \<Rightarrow> string \<Rightarrow> string \<Rightarrow> 'w state
     \<Rightarrow> (Error + unit) \<times> 'w state" where
  "retrieve storage retries gi classifier targetArchivePath =
     gcs storage retries gi classifier
       (\<lambda>storage bucket cachePath. download storage bucket cachePath targetArchivePath)
       ''retrieve''"

section \<open>The archive store, version of 2019\<close>

text \<open>
  The version of 2019 computes the path from the invocation, which resolves the
  configuration a second time, and awaits the storage call directly.
\<close>

definition gcs_2019 ::
  "'w Storage \<Rightarrow> GoalInvocation \<Rightarrow> string \<Rightarrow> 'w GcsOp \<Rightarrow> string \<Rightarrow> 'w state
     \<Rightarrow> (Error + unit) \<times> 'w state" where
  "gcs_2019 storage gi classifier op verb s =
     (let (cacheConfig, h) = getCacheConfig gi (js_heap s);
          (cachePath, h') = getCachePath_2019 gi (Some classifier) h;
          s0 = s\<lparr>js_heap := h'\<rparr>;
          objectUri = ''gs://'' @ template_string (bucket (objects h' cacheConfig)) @ ''/''
                        @ cachePath;
          gerund = replace_final_e verb;
          s1 = ll (gerund @ '' cache archive '' @ objectUri) logger_debug s0;
          (r, w) = op storage (bucket (objects h' cacheConfig)) cachePath (world s1);
          s2 = s1\<lparr>world := w\<rparr>
      in case r of
           Inr v \<Rightarrow> (Inr (), ll (verb @ ''d cache archive '' @ objectUri) logger_debug s2)
         | Inl e \<Rightarrow>
             (let e' = e\<lparr>message := ''Failed to '' @ verb @ '' cache archive '' @ objectUri
                                      @ '': '' @ message e\<rparr>;
                  s3 = ll (message e') logger_error s2
              in if verb = ''retrieve'' then (Inl e', s3) else (Inr (), s3)))"

definition store_2019 ::
  "'w Storage \<Rightarrow> GoalInvocation \<Rightarrow> string \<Rightarrow> string \<Rightarrow> 'w state
     \<Rightarrow> (Error + unit) \<times> 'w state" where
  "store_2019 storage gi classifier archivePath =
     gcs_2019 storage gi classifier
       (\<lambda>storage bucket cachePath. upload storage bucket archivePath cachePath) ''store''"

definition delete_2019 ::
  "'w Storage \<Rightarrow> GoalInvocation \<Rightarrow> string \<Rightarrow> 'w state \<Rightarrow> (Error + unit) \<times> 'w state" where
  "delete_2019 storage gi classifier =
     gcs_2019 storage gi classifier
       (\<lambda>storage bucket cachePath. delete_file storage bucket cachePath) ''delete''"

definition retrieve_2019 ::
  "'w Storage \<Rightarrow> GoalInvocation \<Rightarrow> string \<Rightarrow> string \<Rightarrow> 'w state
     \<Rightarrow> (Error + unit) \<times> 'w state" where
  "retrieve_2019 storage gi classifier targetArchivePath =
     gcs_2019 storage gi classifier
       (\<lambda>storage bucket cachePath. download storage bucket cachePath targetArchivePath)
       ''retrieve''"

section \<open>What a call works on\<close>

text \<open>
  The bucket, the object path and the object URI that \<open>gcs\<close> computes before it calls
  the storage, for each version.
\<close>

definition target_bucket :: "GoalInvocation \<Rightarrow> 'w state \<Rightarrow> string option" where
  "target_bucket gi s = bucket (resolved gi (js_heap s))"

definition target_path :: "GoalInvocation \<Rightarrow> string \<Rightarrow> 'w state \<Rightarrow> string" where
  "target_path gi classifier s = getCachePath (resolved gi (js_heap s)) (Some classifier)"

definition target_path_2019 :: "GoalInvocation \<Rightarrow> string \<Rightarrow> 'w state \<Rightarrow> string" where
  "target_path_2019 gi classifier s =
     fst (getCachePath_2019 gi (Some classifier) (snd (getCacheConfig gi (js_heap s))))"

definition target_uri :: "GoalInvocation \<Rightarrow> string \<Rightarrow> 'w state \<Rightarrow> string" where
  "target_uri gi classifier s =
     ''gs://'' @ template_string (target_bucket gi s) @ ''/'' @ target_path gi classifier s"

definition target_uri_2019 :: "GoalInvocation \<Rightarrow> string \<Rightarrow> 'w state \<Rightarrow> string" where
  "target_uri_2019 gi classifier s =
     ''gs://'' @ template_string (target_bucket gi s) @ ''/'' @ target_path_2019 gi classifier s"

text \<open>The message that the catch block of \<open>gcs\<close> gives an error.\<close>

definition failed_to :: "string \<Rightarrow> string \<Rightarrow> Error \<Rightarrow> Error" where
  "failed_to verb uri e =
     e\<lparr>message := ''Failed to '' @ verb @ '' cache archive '' @ uri @ '': '' @ message e\<rparr>"

section \<open>Counting the storage calls\<close>

text \<open>
  To count the attempts, a storage client is wrapped: the world is paired with the
  number of calls made and the number of calls that failed.
\<close>

definition counting ::
  "('w \<Rightarrow> (Error + 'a) \<times> 'w) \<Rightarrow> 'w \<times> nat \<times> nat \<Rightarrow> (Error + 'a) \<times> ('w \<times> nat \<times> nat)" where
  "counting what = (\<lambda>(w, calls, failures).
     case what w of
       (Inl e, w') \<Rightarrow> (Inl e, (w', Suc calls, Suc failures))
     | (Inr v, w') \<Rightarrow> (Inr v, (w', Suc calls, failures)))"

definition counting_storage :: "'w Storage \<Rightarrow> ('w \<times> nat \<times> nat) Storage" where
  "counting_storage storage =
     \<lparr>upload = (\<lambda>b localFile key. counting (upload storage b localFile key)),
      download = (\<lambda>b key localFile. counting (download storage b key localFile)),
      delete_file = (\<lambda>b key. counting (delete_file storage b key))\<rparr>"

definition calls :: "('w \<times> nat \<times> nat) state \<Rightarrow> nat" where
  "calls s = fst (snd (world s))"

definition failures :: "('w \<times> nat \<times> nat) state \<Rightarrow> nat" where
  "failures s = snd (snd (world s))"

section \<open>The outcome of a call\<close>

text \<open>
  The end of \<open>gcs\<close>, from the outcome of the storage call on: the success line, or
  the catch block.
\<close>

definition gcs_finish ::
  "string \<Rightarrow> string \<Rightarrow> 'w state \<Rightarrow> (Error + unit) \<times> 'w \<Rightarrow> (Error + unit) \<times> 'w state" where
  "gcs_finish verb uri s1 rw =
     (case fst rw of
        Inr v \<Rightarrow> (Inr (), ll (verb @ ''d cache archive '' @ uri) logger_debug (s1\<lparr>world := snd rw\<rparr>))
      | Inl e \<Rightarrow>
          (if verb = ''retrieve'' then Inl (failed_to verb uri e) else Inr (),
           ll (message (failed_to verb uri e)) logger_error (s1\<lparr>world := snd rw\<rparr>)))"

text \<open>An operation succeeded when its last log line is not an error.\<close>

definition succeeded :: "'w state \<Rightarrow> bool" where
  "succeeded s = (fst (last (logger s)) = logger_debug)"

text \<open>
  What the counters say after an operation.  Bounded retry: between one and
  \<open>retries + 1\<close> calls; a logged failure after exactly \<open>retries + 1\<close> failed calls, a
  logged success after a call that followed failed calls only.  Single attempt: one
  call, which failed if and only if the failure was logged.
\<close>

definition bounded_attempts :: "nat \<Rightarrow> ('w \<times> nat \<times> nat) state \<Rightarrow> bool" where
  "bounded_attempts retries s =
     (1 \<le> calls s \<and> calls s \<le> retries + 1 \<and>
      (case fst (last (logger s)) of
         logger_error \<Rightarrow> calls s = retries + 1 \<and> failures s = retries + 1
       | logger_debug \<Rightarrow> failures s + 1 = calls s))"

definition single_attempt :: "('w \<times> nat \<times> nat) state \<Rightarrow> bool" where
  "single_attempt s =
     (calls s = 1 \<and>
      (case fst (last (logger s)) of
         logger_error \<Rightarrow> failures s = 1
       | logger_debug \<Rightarrow> failures s = 0))"

section \<open>An object store in memory\<close>

text \<open>
  Modelled from the spec: the object-storage service is outside the repository.  The
  specification names its capability as upload of a local file to a key of a bucket,
  download of a key to a local file, delete of a key, and a test for existence, with
  opaque errors.  The model keeps the objects in a map from bucket and key to content and
  the local files in a map from path to content.  A call may fail for reasons outside
  the model (network, permissions): \<open>faults\<close> is the script of what happens to the
  coming calls, an error message for a call that fails, \<open>None\<close> for a call that gets
  through; after the script every call gets through.  A call that gets through fails
  when there is no bucket name, when the local file to upload is missing, or when the
  object to download or delete does not exist.
\<close>

record gcs_world =
  bucket_objects :: "(string \<times> string) \<rightharpoonup> string"
  local_files :: "string \<rightharpoonup> string"
  faults :: "string option list"

definition request ::
  "(gcs_world \<Rightarrow> (Error + unit) \<times> gcs_world) \<Rightarrow> gcs_world \<Rightarrow> (Error + unit) \<times> gcs_world" where
  "request act w =
     (case faults w of
        [] \<Rightarrow> act w
      | None # rest \<Rightarrow> act (w\<lparr>faults := rest\<rparr>)
      | Some msg # rest \<Rightarrow> (Inl \<lparr>message = msg\<rparr>, w\<lparr>faults := rest\<rparr>))"

definition memory_upload ::
  "string option \<Rightarrow> string \<Rightarrow> string \<Rightarrow> gcs_world \<Rightarrow> (Error + unit) \<times> gcs_world" where
  "memory_upload b localFile key w =
     (case b of
        None \<Rightarrow> (Inl \<lparr>message = ''A bucket name is needed to use Cloud Storage.''\<rparr>, w)
      | Some bucketName \<Rightarrow>
          (case local_files w localFile of
             None \<Rightarrow> (Inl \<lparr>message = ''ENOENT: no such file or directory''\<rparr>, w)
           | Some content \<Rightarrow>
               (Inr (),
                w\<lparr>bucket_objects := (bucket_objects w)((bucketName, key) \<mapsto> content)\<rparr>)))"

definition memory_download ::
  "string option \<Rightarrow> string \<Rightarrow> string \<Rightarrow> gcs_world \<Rightarrow> (Error + unit) \<times> gcs_world" where
  "memory_download b key localFile w =
     (case b of
        None \<Rightarrow> (Inl \<lparr>message = ''A bucket name is needed to use Cloud Storage.''\<rparr>, w)
      | Some bucketName \<Rightarrow>
          (case bucket_objects w (bucketName, key) of
             None \<Rightarrow> (Inl \<lparr>message = ''No such object''\<rparr>, w)
           | Some content \<Rightarrow>
               (Inr (), w\<lparr>local_files := (local_files w)(localFile \<mapsto> content)\<rparr>)))"

definition memory_delete ::
  "string option \<Rightarrow> string \<Rightarrow> gcs_world \<Rightarrow> (Error + unit) \<times> gcs_world" where
  "memory_delete b key w =
     (case b of
        None \<Rightarrow> (Inl \<lparr>message = ''A bucket name is needed to use Cloud Storage.''\<rparr>, w)
      | Some bucketName \<Rightarrow>
          (case bucket_objects w (bucketName, key) of
             None \<Rightarrow> (Inl \<lparr>message = ''No such object''\<rparr>, w)
           | Some content \<Rightarrow>
               (Inr (), w\<lparr>bucket_objects := (bucket_objects w)((bucketName, key) := None)\<rparr>)))"

definition memory_storage :: "gcs_world Storage" where
  "memory_storage =
     \<lparr>upload = (\<lambda>b localFile key. request (memory_upload b localFile key)),
      download = (\<lambda>b key localFile. request (memory_download b key localFile)),
      delete_file = (\<lambda>b key. request (memory_delete b key))\<rparr>"

text \<open>The content of the object of a bucket at a key, if the object exists.\<close>

definition object_at :: "gcs_world \<Rightarrow> string option \<Rightarrow> string \<Rightarrow> string option" where
  "object_at w b key = (case b of None \<Rightarrow> None | Some bucketName \<Rightarrow> bucket_objects w (bucketName, key))"

section \<open>The bucket name as the specification words it\<close>

text \<open>
  The specification describes the clean-up of the bucket name as removing every
  character that is not a lowercase letter, a digit or a hyphen, and then collapsing
  every run of two or more hyphens into one hyphen.
\<close>

definition strip_disallowed :: "string \<Rightarrow> string" where
  "strip_disallowed s = filter bucket_char s"

fun collapse_hyphens :: "string \<Rightarrow> string" where
  "collapse_hyphens (c # d # cs) =
     (if c = CHR ''-'' \<and> d = CHR ''-'' then collapse_hyphens (d # cs)
      else c # collapse_hyphens (d # cs))"
| "collapse_hyphens cs = cs"

section \<open>Test inputs\<close>

text \<open>
  The heap with no object, the heap whose only object is a given cache block (at
  reference 0), and the invocation of the repository's tests with a given application
  name and cache reference.
\<close>

definition h_empty :: heap where
  "h_empty = \<lparr>objects = (\<lambda>r. empty_object), next_ref = 0\<rparr>"

definition with_block :: "cache_block \<Rightarrow> heap" where
  "with_block b = \<lparr>objects = (\<lambda>r. empty_object)(0 := b), next_ref = 1\<rparr>"

definition gi_test :: "string \<Rightarrow> ref option \<Rightarrow> GoalInvocation" where
  "gi_test name c =
     \<lparr>configuration_name = name, configuration_sdm_cache = c,
      context_workspaceId = ''TH3BY4D5'', goalEvent_repo_providerId = ''100yearsfromnow'',
      goalEvent_repo_owner = ''YoureStillOnMyMind'',
      goalEvent_repo_name = ''you-aint-goin-nowhere'',
      goalEvent_branch = ''the-christian-life'',
      goalEvent_sha = ''808eddb6016a45091e6d53f12ab8ca2d1cd7fb3e''\<rparr>"

text \<open>
  The fully specified cache block of the tests, and a state for the store in memory:
  the block is the only object of the heap, the logs and the bucket are empty, one local
  file \<open>in.tar.gz\<close> exists, and the script of faults is given.
\<close>

definition blk_test :: cache_block where
  "blk_test = \<lparr>bucket = Some ''hickory-wind'', enabled = Some True, path = Some ''lazy/days''\<rparr>"

definition s_test :: "string option list \<Rightarrow> gcs_world state" where
  "s_test fs =
     \<lparr>js_heap = with_block blk_test, logger = [], progressLog = [],
      world = \<lparr>bucket_objects = Map.empty,
               local_files = [''in.tar.gz'' \<mapsto> ''Test junk''],
               faults = fs\<rparr>\<rparr>"

text \<open>A state of the store in memory with the counters at zero.\<close>

definition counted :: "gcs_world state \<Rightarrow> (gcs_world \<times> nat \<times> nat) state" where
  "counted s = \<lparr>js_heap = js_heap s, logger = logger s, progressLog = progressLog s,
                 world = (world s, 0, 0)\<rparr>"

section \<open>Properties of the configuration\<close>

lemma resolved_fields:
  "resolved gi h =
     \<lparr>bucket = Some (or_string (bucket (supplied gi h))
                  (default_bucket (context_workspaceId gi) (configuration_name gi))),
      enabled = Some (or_bool (enabled (supplied gi h)) False),
      path = Some (or_string (path (supplied gi h)) ''goal-cache'')\<rparr>"
  by (cases "configuration_sdm_cache gi")
     (simp_all add: resolved_def supplied_def getCacheConfig_def new_object_def empty_object_def
        set_enabled_def set_bucket_def set_path_def Let_def)

lemma default_bucket_nonempty: "default_bucket workspaceId name \<noteq> []"
  by (simp add: default_bucket_def toLowerCase_def toLowerCase_char_def bucket_char_def)

text \<open>The bucket names of the tests, evaluated once.\<close>

lemma default_bucket_sweetheart:
  "default_bucket ''TH3BY4D5'' ''sweetheart-of-the-rodeo''
     = ''sdm-th3by4d5-sweetheart-of-the-rodeo-goal-cache''"
  by code_simp

lemma default_bucket_rodeo:
  "default_bucket ''TH3BY4D5'' ''@Sweetheart/of--the-Rodeo-''
     = ''sdm-th3by4d5-sweetheartof-the-rodeo-goal-cache''"
  by code_simp

lemma default_bucket_byrds:
  "default_bucket ''TH3BY4D5'' ''@byrds/sweetheart-of-the-rodeo''
     = ''sdm-th3by4d5-byrdssweetheart-of-the-rodeo-goal-cache''"
  by code_simp

text \<open>
  Claim C7.  With workspace \<open>TH3BY4D5\<close>, application name \<open>sweetheart-of-the-rodeo\<close>
  and no cache block, \<open>getCacheConfig\<close> returns the object with bucket
  \<open>sdm-th3by4d5-sweetheart-of-the-rodeo-goal-cache\<close>, enabled \<open>false\<close> and path
  \<open>goal-cache\<close>; whatever the bucket field is, absent \<open>enabled\<close> and \<open>path\<close> fields
  become \<open>false\<close> and \<open>goal-cache\<close>.
\<close>

theorem getCacheConfig_default_config:
  "resolved \<lparr>configuration_name = ''sweetheart-of-the-rodeo'', configuration_sdm_cache = None,
       context_workspaceId = ''TH3BY4D5'', goalEvent_repo_providerId = pid,
       goalEvent_repo_owner = own, goalEvent_repo_name = rn, goalEvent_branch = br,
       goalEvent_sha = sh\<rparr> h =
     \<lparr>bucket = Some ''sdm-th3by4d5-sweetheart-of-the-rodeo-goal-cache'',
      enabled = Some False, path = Some ''goal-cache''\<rparr>
   \<and> enabled (resolved (gi\<lparr>configuration_sdm_cache := None\<rparr>) h) = Some False
   \<and> path (resolved (gi\<lparr>configuration_sdm_cache := None\<rparr>) h) = Some ''goal-cache''
   \<and> enabled (resolved (gi\<lparr>configuration_sdm_cache := Some r\<rparr>)
        (h\<lparr>objects := (objects h)(r := \<lparr>bucket = b, enabled = None, path = None\<rparr>)\<rparr>)) = Some False
   \<and> path (resolved (gi\<lparr>configuration_sdm_cache := Some r\<rparr>)
        (h\<lparr>objects := (objects h)(r := \<lparr>bucket = b, enabled = None, path = None\<rparr>)\<rparr>))
       = Some ''goal-cache''"
  by (simp add: resolved_fields supplied_def empty_object_def or_string_def or_bool_def
        default_bucket_sweetheart)

lemma filter_dropWhile_not: "filter P (dropWhile (\<lambda>d. \<not> P d) cs) = filter P cs"
  by (induction cs) simp_all

lemma replace_non_bucket_chars_filter: "replace_non_bucket_chars s = filter bucket_char s"
  by (induction s rule: replace_non_bucket_chars.induct) (simp_all add: filter_dropWhile_not)

lemma collapse_hyphens_run:
  "collapse_hyphens (CHR ''-'' # cs) = CHR ''-'' # collapse_hyphens (dropWhile (\<lambda>d. d = CHR ''-'') cs)"
proof (induction cs)
  case Nil
  show ?case by simp
next
  case (Cons d ds)
  show ?case
  proof (cases "d = CHR ''-''")
    case True
    with Cons show ?thesis by simp
  next
    case False
    then show ?thesis by (cases ds) simp_all
  qed
qed

lemma collapse_hyphens_keep:
  "\<not> (c = CHR ''-'' \<and> take 1 cs = ''-'') \<Longrightarrow> collapse_hyphens (c # cs) = c # collapse_hyphens cs"
  by (cases cs) auto

lemma replace_hyphen_runs_collapse: "replace_hyphen_runs s = collapse_hyphens s"
proof (induction s rule: replace_hyphen_runs.induct)
  case 1
  show ?case by simp
next
  case (2 c cs)
  show ?case
  proof (cases "c = CHR ''-'' \<and> take 1 cs = ''-''")
    case True
    then have "replace_hyphen_runs (c # cs) =
        CHR ''-'' # replace_hyphen_runs (dropWhile (\<lambda>d. d = CHR ''-'') cs)"
      by simp
    also have "\<dots> = CHR ''-'' # collapse_hyphens (dropWhile (\<lambda>d. d = CHR ''-'') cs)"
      using "2.IH"(1) [OF True] by simp
    also have "\<dots> = collapse_hyphens (c # cs)"
      using True by (simp add: collapse_hyphens_run)
    finally show ?thesis .
  next
    case False
    then have "replace_hyphen_runs (c # cs) = c # replace_hyphen_runs cs"
      by auto
    also have "\<dots> = c # collapse_hyphens cs"
      using "2.IH"(2) [OF False] by simp
    also have "\<dots> = collapse_hyphens (c # cs)"
      using collapse_hyphens_keep [OF False] by simp
    finally show ?thesis .
  qed
qed

text \<open>
  Claim C3.  When no bucket is configured (an empty one counts as none), the bucket that
  \<open>getCacheConfig\<close> returns is the concatenation of \<open>sdm-\<close>, the workspace identifier,
  a hyphen, the application name and \<open>-goal-cache\<close>, lower-cased, with every character
  that is not a lowercase letter, a digit or a hyphen removed and every run of two or
  more hyphens collapsed into one.
\<close>

theorem default_bucket_derivation:
  assumes "bucket (supplied gi h) = None \<or> bucket (supplied gi h) = Some ''''"
  shows "bucket (resolved gi h) =
           Some (collapse_hyphens (strip_disallowed (toLowerCase
             (''sdm-'' @ context_workspaceId gi @ ''-'' @ configuration_name gi @ ''-goal-cache''))))"
  using assms
  by (auto simp: resolved_fields or_string_def default_bucket_def strip_disallowed_def
        replace_non_bucket_chars_filter replace_hyphen_runs_collapse)

text \<open>
  Claim C3 on the input of the test "should clean up bucket name": application name
  \<open>@Sweetheart/of--the-Rodeo-\<close> and workspace \<open>TH3BY4D5\<close> give the bucket
  \<open>sdm-th3by4d5-sweetheartof-the-rodeo-goal-cache\<close>.
\<close>

theorem default_bucket_derivation_witness:
  "bucket (supplied (gi_test ''@Sweetheart/of--the-Rodeo-'' None) h_empty) = None
   \<and> bucket (resolved (gi_test ''@Sweetheart/of--the-Rodeo-'' None) h_empty)
       = Some ''sdm-th3by4d5-sweetheartof-the-rodeo-goal-cache''"
  using default_bucket_derivation [of "gi_test ''@Sweetheart/of--the-Rodeo-'' None" h_empty]
  by (simp add: supplied_def gi_test_def empty_object_def resolved_fields or_string_def
        default_bucket_rodeo)


text \<open>
  Claim C10.  Defaulting is decided by falsiness: a bucket or a path supplied as the
  empty string is replaced by its default (and the default bucket is never empty), and
  \<open>enabled\<close> supplied as \<open>false\<close> comes out as the default \<open>false\<close>.
\<close>

theorem getCacheConfig_falsy_defaulted:
  "(bucket (supplied gi h) = Some '''' \<longrightarrow>
      bucket (resolved gi h) = Some (default_bucket (context_workspaceId gi) (configuration_name gi))
      \<and> bucket (resolved gi h) \<noteq> Some '''')
   \<and> (path (supplied gi h) = Some '''' \<longrightarrow> path (resolved gi h) = Some ''goal-cache'')
   \<and> (enabled (supplied gi h) = Some False \<longrightarrow> enabled (resolved gi h) = Some False)"
  by (simp add: resolved_fields or_string_def or_bool_def default_bucket_nonempty)

text \<open>Claim C10 on a cache block whose three fields are all falsy.\<close>

theorem getCacheConfig_falsy_defaulted_witness:
  "bucket (supplied (gi_test ''@byrds/sweetheart-of-the-rodeo'' (Some 0)) (with_block \<lparr>bucket = Some '''', enabled = Some False, path = Some ''''\<rparr>)) = Some ''''
   \<and> path (supplied (gi_test ''@byrds/sweetheart-of-the-rodeo'' (Some 0)) (with_block \<lparr>bucket = Some '''', enabled = Some False, path = Some ''''\<rparr>)) = Some ''''
   \<and> enabled (supplied (gi_test ''@byrds/sweetheart-of-the-rodeo'' (Some 0)) (with_block \<lparr>bucket = Some '''', enabled = Some False, path = Some ''''\<rparr>)) = Some False
   \<and> resolved (gi_test ''@byrds/sweetheart-of-the-rodeo'' (Some 0)) (with_block \<lparr>bucket = Some '''', enabled = Some False, path = Some ''''\<rparr>)
       = \<lparr>bucket = Some ''sdm-th3by4d5-byrdssweetheart-of-the-rodeo-goal-cache'', enabled = Some False, path = Some ''goal-cache''\<rparr>"
  using getCacheConfig_falsy_defaulted [of "gi_test ''@byrds/sweetheart-of-the-rodeo'' (Some 0)" "with_block \<lparr>bucket = Some '''', enabled = Some False, path = Some ''''\<rparr>"]
  by (simp add: supplied_def gi_test_def with_block_def resolved_fields or_string_def or_bool_def
        default_bucket_byrds)


lemma getCacheConfig_Some:
  "configuration_sdm_cache gi = Some r \<Longrightarrow>
   getCacheConfig gi h = (r, h\<lparr>objects := (objects h)(r := resolved gi h)\<rparr>)"
  by (simp add: resolved_def getCacheConfig_def set_enabled_def set_bucket_def set_path_def Let_def)

lemma getCacheConfig_None:
  "configuration_sdm_cache gi = None \<Longrightarrow>
   getCacheConfig gi h =
     (next_ref h, h\<lparr>objects := (objects h)(next_ref h := resolved gi h), next_ref := Suc (next_ref h)\<rparr>)"
  by (simp add: resolved_def getCacheConfig_def new_object_def set_enabled_def set_bucket_def
        set_path_def Let_def)

text \<open>
  Claim C4, as stated, fails: a bucket supplied as the empty string is not returned
  unchanged, the default bucket takes its place.
\<close>

theorem supplied_empty_bucket_counterexample:
  "bucket (supplied (gi_test ''@byrds/sweetheart-of-the-rodeo'' (Some 0))
       (with_block \<lparr>bucket = Some '''', enabled = Some True, path = Some ''lazy/days''\<rparr>)) = Some ''''
   \<and> bucket (resolved (gi_test ''@byrds/sweetheart-of-the-rodeo'' (Some 0))
       (with_block \<lparr>bucket = Some '''', enabled = Some True, path = Some ''lazy/days''\<rparr>))
     = Some ''sdm-th3by4d5-byrdssweetheart-of-the-rodeo-goal-cache''"
  by (simp add: resolved_fields supplied_def gi_test_def with_block_def or_string_def
        default_bucket_byrds)

text \<open>
  Claim C4, amended.  A supplied bucket or path that is not the empty string, and a
  supplied \<open>enabled\<close> of either value, is returned unchanged; each field of the result
  is computed from the same field of the supplied block alone, so a missing or empty
  field is defaulted whatever the other fields are.
\<close>

theorem supplied_truthy_preserved:
  "(bucket (supplied gi h) = Some b \<and> b \<noteq> '''' \<longrightarrow> bucket (resolved gi h) = Some b)
   \<and> (enabled (supplied gi h) = Some e \<longrightarrow> enabled (resolved gi h) = Some e)
   \<and> (path (supplied gi h) = Some p \<and> p \<noteq> '''' \<longrightarrow> path (resolved gi h) = Some p)
   \<and> bucket (resolved gi h) = Some (or_string (bucket (supplied gi h))
        (default_bucket (context_workspaceId gi) (configuration_name gi)))
   \<and> enabled (resolved gi h) = Some (or_bool (enabled (supplied gi h)) False)
   \<and> path (resolved gi h) = Some (or_string (path (supplied gi h)) ''goal-cache'')"
  by (simp add: resolved_fields or_string_def or_bool_def)

text \<open>
  The amended claim C4 on the input of the test "should use provided config": the
  block with bucket \<open>hickory-wind\<close>, enabled \<open>true\<close> and path \<open>lazy/days\<close> comes back
  as it is.
\<close>

theorem supplied_truthy_preserved_witness:
  "supplied (gi_test ''@byrds/sweetheart-of-the-rodeo'' (Some 0))
       (with_block \<lparr>bucket = Some ''hickory-wind'', enabled = Some True, path = Some ''lazy/days''\<rparr>)
     = \<lparr>bucket = Some ''hickory-wind'', enabled = Some True, path = Some ''lazy/days''\<rparr>
   \<and> ''hickory-wind'' \<noteq> '''' \<and> ''lazy/days'' \<noteq> ''''
   \<and> resolved (gi_test ''@byrds/sweetheart-of-the-rodeo'' (Some 0))
       (with_block \<lparr>bucket = Some ''hickory-wind'', enabled = Some True, path = Some ''lazy/days''\<rparr>)
     = \<lparr>bucket = Some ''hickory-wind'', enabled = Some True, path = Some ''lazy/days''\<rparr>"
  using supplied_truthy_preserved [of "gi_test ''@byrds/sweetheart-of-the-rodeo'' (Some 0)"
      "with_block \<lparr>bucket = Some ''hickory-wind'', enabled = Some True, path = Some ''lazy/days''\<rparr>"
      "''hickory-wind''" True "''lazy/days''"]
  by (simp add: supplied_def gi_test_def with_block_def cache_block.equality)

lemma or_string_idem: "d \<noteq> [] \<Longrightarrow> or_string (Some (or_string a d)) d = or_string a d"
  by (simp add: or_string_def split: option.splits)

lemma or_bool_idem: "or_bool (Some (or_bool a False)) False = or_bool a False"
  by (simp add: or_bool_def split: option.splits)

lemma resolved_again:
  assumes "configuration_sdm_cache gi' = Some r" and "objects h' r = resolved gi h"
    and "context_workspaceId gi' = context_workspaceId gi"
    and "configuration_name gi' = configuration_name gi"
  shows "resolved gi' h' = resolved gi h"
  using assms
  by (simp add: resolved_fields [of gi'] supplied_def)
     (simp add: resolved_fields [of gi h] or_string_idem or_bool_idem default_bucket_nonempty)

text \<open>
  Claim C8.  \<open>getCacheConfig\<close> has no failure path, and applied to its own
  output it is the identity: it returns the same object and leaves the heap as it is.
  A block in which bucket, enabled and path are all present, with bucket and path not
  empty, is returned unchanged.
\<close>

theorem getCacheConfig_idempotent:
  "getCacheConfig (gi\<lparr>configuration_sdm_cache := Some (fst (getCacheConfig gi h))\<rparr>)
       (snd (getCacheConfig gi h)) = getCacheConfig gi h
   \<and> (configuration_sdm_cache gi = Some r
        \<and> objects h r = \<lparr>bucket = Some b, enabled = Some e, path = Some p\<rparr>
        \<and> b \<noteq> '''' \<and> p \<noteq> '''' \<longrightarrow> getCacheConfig gi h = (r, h))"
proof (intro conjI impI)
  show "getCacheConfig (gi\<lparr>configuration_sdm_cache := Some (fst (getCacheConfig gi h))\<rparr>)
       (snd (getCacheConfig gi h)) = getCacheConfig gi h"
  proof (cases "configuration_sdm_cache gi")
    case None
    have "resolved (gi\<lparr>configuration_sdm_cache := Some (next_ref h)\<rparr>)
            (h\<lparr>objects := (objects h)(next_ref h := resolved gi h), next_ref := Suc (next_ref h)\<rparr>)
          = resolved gi h"
      by (rule resolved_again [where r = "next_ref h"]) simp_all
    then show ?thesis
      by (simp add: getCacheConfig_None [OF None] getCacheConfig_Some)
  next
    case (Some r)
    have "resolved (gi\<lparr>configuration_sdm_cache := Some r\<rparr>)
            (h\<lparr>objects := (objects h)(r := resolved gi h)\<rparr>) = resolved gi h"
      by (rule resolved_again [where r = r]) simp_all
    then show ?thesis
      by (simp add: getCacheConfig_Some [OF Some] getCacheConfig_Some)
  qed
next
  assume a: "configuration_sdm_cache gi = Some r
        \<and> objects h r = \<lparr>bucket = Some b, enabled = Some e, path = Some p\<rparr>
        \<and> b \<noteq> '''' \<and> p \<noteq> ''''"
  then have "resolved gi h = objects h r"
    by (simp add: resolved_fields supplied_def or_string_def or_bool_def)
  then have "(objects h)(r := resolved gi h) = objects h"
    by (simp add: fun_upd_idem_iff)
  with a show "getCacheConfig gi h = (r, h)"
    by (simp add: getCacheConfig_Some)
qed

text \<open>Claim C8 on the fully specified block of the tests.\<close>

theorem getCacheConfig_idempotent_witness:
  "configuration_sdm_cache (gi_test ''@byrds/sweetheart-of-the-rodeo'' (Some 0)) = Some 0
   \<and> objects (with_block \<lparr>bucket = Some ''hickory-wind'', enabled = Some True, path = Some ''lazy/days''\<rparr>) 0
       = \<lparr>bucket = Some ''hickory-wind'', enabled = Some True, path = Some ''lazy/days''\<rparr>
   \<and> ''hickory-wind'' \<noteq> '''' \<and> ''lazy/days'' \<noteq> ''''
   \<and> getCacheConfig (gi_test ''@byrds/sweetheart-of-the-rodeo'' (Some 0))
        (with_block \<lparr>bucket = Some ''hickory-wind'', enabled = Some True, path = Some ''lazy/days''\<rparr>)
       = (0, with_block \<lparr>bucket = Some ''hickory-wind'', enabled = Some True, path = Some ''lazy/days''\<rparr>)"
  using getCacheConfig_idempotent [of "gi_test ''@byrds/sweetheart-of-the-rodeo'' (Some 0)"
      "with_block \<lparr>bucket = Some ''hickory-wind'', enabled = Some True, path = Some ''lazy/days''\<rparr>"
      0 "''hickory-wind''" True "''lazy/days''"]
  by (simp add: gi_test_def with_block_def)

text \<open>
  Claim C5, as stated, fails: with a cache block that sets only the bucket,
  \<open>getCacheConfig\<close> writes \<open>enabled\<close> and \<open>path\<close> into that block and returns the
  block itself; no object is allocated.
\<close>

theorem getCacheConfig_mutates_counterexample:
  "configuration_sdm_cache (gi_test ''@byrds/sweetheart-of-the-rodeo'' (Some 0)) = Some 0
   \<and> objects (with_block \<lparr>bucket = Some ''hickory-wind'', enabled = None, path = None\<rparr>) 0
       = \<lparr>bucket = Some ''hickory-wind'', enabled = None, path = None\<rparr>
   \<and> fst (getCacheConfig (gi_test ''@byrds/sweetheart-of-the-rodeo'' (Some 0))
        (with_block \<lparr>bucket = Some ''hickory-wind'', enabled = None, path = None\<rparr>)) = 0
   \<and> objects (snd (getCacheConfig (gi_test ''@byrds/sweetheart-of-the-rodeo'' (Some 0))
        (with_block \<lparr>bucket = Some ''hickory-wind'', enabled = None, path = None\<rparr>))) 0
       = \<lparr>bucket = Some ''hickory-wind'', enabled = Some False, path = Some ''goal-cache''\<rparr>
   \<and> next_ref (snd (getCacheConfig (gi_test ''@byrds/sweetheart-of-the-rodeo'' (Some 0))
        (with_block \<lparr>bucket = Some ''hickory-wind'', enabled = None, path = None\<rparr>)))
       = next_ref (with_block \<lparr>bucket = Some ''hickory-wind'', enabled = None, path = None\<rparr>)"
  by (simp add: getCacheConfig_Some gi_test_def with_block_def resolved_fields supplied_def
        or_string_def or_bool_def)

text \<open>
  Claim C5, amended.  \<open>getCacheConfig\<close> never fails.  With no cache block it
  allocates one object and changes no other.  With a cache block it returns that very
  block, allocates nothing, writes the resolved fields into the block and changes no
  other object; the heap is left as it was exactly when the block already had all three
  fields, with bucket and path not empty.
\<close>

theorem getCacheConfig_frame:
  "(configuration_sdm_cache gi = None \<longrightarrow>
      fst (getCacheConfig gi h) = next_ref h
      \<and> next_ref (snd (getCacheConfig gi h)) = Suc (next_ref h)
      \<and> objects (snd (getCacheConfig gi h)) (next_ref h) =
          \<lparr>bucket = Some (default_bucket (context_workspaceId gi) (configuration_name gi)),
           enabled = Some False, path = Some ''goal-cache''\<rparr>
      \<and> (\<forall>r'. r' \<noteq> next_ref h \<longrightarrow> objects (snd (getCacheConfig gi h)) r' = objects h r'))
   \<and> (configuration_sdm_cache gi = Some r \<longrightarrow>
      fst (getCacheConfig gi h) = r
      \<and> next_ref (snd (getCacheConfig gi h)) = next_ref h
      \<and> objects (snd (getCacheConfig gi h)) r =
          \<lparr>bucket = Some (or_string (bucket (objects h r))
                      (default_bucket (context_workspaceId gi) (configuration_name gi))),
           enabled = Some (or_bool (enabled (objects h r)) False),
           path = Some (or_string (path (objects h r)) ''goal-cache'')\<rparr>
      \<and> (\<forall>r'. r' \<noteq> r \<longrightarrow> objects (snd (getCacheConfig gi h)) r' = objects h r')
      \<and> (snd (getCacheConfig gi h) = h \<longleftrightarrow>
           (\<exists>b e p. objects h r = \<lparr>bucket = Some b, enabled = Some e, path = Some p\<rparr>
              \<and> b \<noteq> '''' \<and> p \<noteq> '''')))"
proof (intro conjI impI)
  assume n: "configuration_sdm_cache gi = None"
  show "fst (getCacheConfig gi h) = next_ref h"
    by (simp add: getCacheConfig_None [OF n])
  show "next_ref (snd (getCacheConfig gi h)) = Suc (next_ref h)"
    by (simp add: getCacheConfig_None [OF n])
  show "objects (snd (getCacheConfig gi h)) (next_ref h) =
          \<lparr>bucket = Some (default_bucket (context_workspaceId gi) (configuration_name gi)),
           enabled = Some False, path = Some ''goal-cache''\<rparr>"
    by (simp add: getCacheConfig_None [OF n] resolved_fields supplied_def n empty_object_def
          or_string_def or_bool_def)
  show "\<forall>r'. r' \<noteq> next_ref h \<longrightarrow> objects (snd (getCacheConfig gi h)) r' = objects h r'"
    by (simp add: getCacheConfig_None [OF n])
next
  assume s: "configuration_sdm_cache gi = Some r"
  have sup: "supplied gi h = objects h r"
    using s by (simp add: supplied_def)
  show "fst (getCacheConfig gi h) = r"
    by (simp add: getCacheConfig_Some [OF s])
  show "next_ref (snd (getCacheConfig gi h)) = next_ref h"
    by (simp add: getCacheConfig_Some [OF s])
  show "objects (snd (getCacheConfig gi h)) r =
          \<lparr>bucket = Some (or_string (bucket (objects h r))
                      (default_bucket (context_workspaceId gi) (configuration_name gi))),
           enabled = Some (or_bool (enabled (objects h r)) False),
           path = Some (or_string (path (objects h r)) ''goal-cache'')\<rparr>"
    by (simp add: getCacheConfig_Some [OF s] resolved_fields sup)
  show "\<forall>r'. r' \<noteq> r \<longrightarrow> objects (snd (getCacheConfig gi h)) r' = objects h r'"
    by (simp add: getCacheConfig_Some [OF s])
  have "snd (getCacheConfig gi h) = h \<longleftrightarrow> resolved gi h = objects h r"
  proof
    assume "snd (getCacheConfig gi h) = h"
    then have "objects (snd (getCacheConfig gi h)) r = objects h r"
      by simp
    then show "resolved gi h = objects h r"
      by (simp add: getCacheConfig_Some [OF s])
  next
    assume "resolved gi h = objects h r"
    then have "(objects h)(r := resolved gi h) = objects h"
      by (simp add: fun_upd_idem_iff)
    then show "snd (getCacheConfig gi h) = h"
      by (simp add: getCacheConfig_Some [OF s])
  qed
  also have "\<dots> \<longleftrightarrow> (\<exists>b e p. objects h r = \<lparr>bucket = Some b, enabled = Some e, path = Some p\<rparr>
              \<and> b \<noteq> '''' \<and> p \<noteq> '''')"
  proof
    assume eq: "resolved gi h = objects h r"
    define B where "B = or_string (bucket (objects h r))
            (default_bucket (context_workspaceId gi) (configuration_name gi))"
    define E where "E = or_bool (enabled (objects h r)) False"
    define P where "P = or_string (path (objects h r)) ''goal-cache''"
    have "B \<noteq> ''''"
      by (simp add: B_def or_string_def default_bucket_nonempty split: option.splits)
    moreover have "P \<noteq> ''''"
      by (simp add: P_def or_string_def split: option.splits)
    moreover have "resolved gi h = \<lparr>bucket = Some B, enabled = Some E, path = Some P\<rparr>"
      by (simp add: resolved_fields sup B_def E_def P_def)
    with eq have "objects h r = \<lparr>bucket = Some B, enabled = Some E, path = Some P\<rparr>"
      by simp
    ultimately show "\<exists>b e p. objects h r = \<lparr>bucket = Some b, enabled = Some e, path = Some p\<rparr>
              \<and> b \<noteq> '''' \<and> p \<noteq> ''''"
      by blast
  next
    assume "\<exists>b e p. objects h r = \<lparr>bucket = Some b, enabled = Some e, path = Some p\<rparr>
              \<and> b \<noteq> '''' \<and> p \<noteq> ''''"
    then show "resolved gi h = objects h r"
      by (auto simp: resolved_fields sup or_string_def or_bool_def)
  qed
  finally show "snd (getCacheConfig gi h) = h \<longleftrightarrow>
           (\<exists>b e p. objects h r = \<lparr>bucket = Some b, enabled = Some e, path = Some p\<rparr>
              \<and> b \<noteq> '''' \<and> p \<noteq> '''')" .
qed

text \<open>
  The amended claim C5 on an invocation without a cache block and on one whose block
  sets only the bucket.
\<close>

theorem getCacheConfig_frame_witness:
  "configuration_sdm_cache (gi_test ''sweetheart-of-the-rodeo'' None) = None
   \<and> fst (getCacheConfig (gi_test ''sweetheart-of-the-rodeo'' None) h_empty) = 0
   \<and> next_ref (snd (getCacheConfig (gi_test ''sweetheart-of-the-rodeo'' None) h_empty)) = 1
   \<and> configuration_sdm_cache (gi_test ''@byrds/sweetheart-of-the-rodeo'' (Some 0)) = Some 0
   \<and> fst (getCacheConfig (gi_test ''@byrds/sweetheart-of-the-rodeo'' (Some 0))
        (with_block \<lparr>bucket = Some ''hickory-wind'', enabled = None, path = None\<rparr>)) = 0
   \<and> objects (snd (getCacheConfig (gi_test ''@byrds/sweetheart-of-the-rodeo'' (Some 0))
        (with_block \<lparr>bucket = Some ''hickory-wind'', enabled = None, path = None\<rparr>))) 0
       = \<lparr>bucket = Some ''hickory-wind'', enabled = Some False, path = Some ''goal-cache''\<rparr>
   \<and> snd (getCacheConfig (gi_test ''@byrds/sweetheart-of-the-rodeo'' (Some 0))
        (with_block \<lparr>bucket = Some ''hickory-wind'', enabled = None, path = None\<rparr>))
       \<noteq> with_block \<lparr>bucket = Some ''hickory-wind'', enabled = None, path = None\<rparr>"
  using getCacheConfig_frame [of "gi_test ''sweetheart-of-the-rodeo'' None" h_empty 0]
    getCacheConfig_frame [of "gi_test ''@byrds/sweetheart-of-the-rodeo'' (Some 0)"
      "with_block \<lparr>bucket = Some ''hickory-wind'', enabled = None, path = None\<rparr>" 0]
  by (simp add: gi_test_def with_block_def h_empty_def or_string_def or_bool_def)

section \<open>Properties of the archive store\<close>

lemma resolved_stable: "resolved gi (snd (getCacheConfig gi h)) = resolved gi h"
proof (cases "configuration_sdm_cache gi")
  case None
  then show ?thesis
    by (simp add: resolved_fields supplied_def)
next
  case (Some r)
  show ?thesis
    by (rule resolved_again [where r = r]) (simp_all add: Some getCacheConfig_Some)
qed

lemma objects_getCacheConfig: "objects (snd (getCacheConfig gi h)) (fst (getCacheConfig gi h)) = resolved gi h"
  by (simp add: resolved_def split: prod.splits)

lemma objects_getCacheConfig_twice:
  "objects (snd (getCacheConfig gi (snd (getCacheConfig gi h)))) (fst (getCacheConfig gi h))
     = resolved gi h"
proof (cases "configuration_sdm_cache gi")
  case None
  show ?thesis
    by (simp add: getCacheConfig_None [OF None])
next
  case (Some r)
  have "resolved gi (h\<lparr>objects := (objects h)(r := resolved gi h)\<rparr>) = resolved gi h"
    by (rule resolved_again [where r = r]) (simp_all add: Some)
  then show ?thesis
    by (simp add: getCacheConfig_Some [OF Some])
qed

lemma getCachePath_2019_path:
  "fst (getCachePath_2019 gi classifier (snd (getCacheConfig gi h))) = fst (getCachePath_2019 gi classifier h)"
  by (simp add: getCachePath_2019_def Let_def split: prod.splits)
     (metis objects_getCacheConfig resolved_stable fst_conv snd_conv)

lemma gcs_unfold:
  "gcs storage retries gi classifier op verb s =
     gcs_finish verb (target_uri gi classifier s)
       (ll (replace_final_e verb @ '' cache archive '' @ target_uri gi classifier s) logger_debug
          (s\<lparr>js_heap := snd (getCacheConfig gi (js_heap s))\<rparr>))
       (doWithRetry retries (op storage (target_bucket gi s) (target_path gi classifier s)) (world s))"
  by (simp add: gcs_def gcs_finish_def target_uri_def target_bucket_def target_path_def
        resolved_def failed_to_def ll_def Let_def split: prod.splits sum.splits)

lemma gcs_2019_unfold:
  "gcs_2019 storage gi classifier op verb s =
     gcs_finish verb (target_uri_2019 gi classifier s)
       (ll (replace_final_e verb @ '' cache archive '' @ target_uri_2019 gi classifier s) logger_debug
          (s\<lparr>js_heap := snd (getCacheConfig gi (snd (getCacheConfig gi (js_heap s))))\<rparr>))
       (op storage (target_bucket gi s) (target_path_2019 gi classifier s) (world s))"
proof -
  obtain r h where g1: "getCacheConfig gi (js_heap s) = (r, h)"
    by (cases "getCacheConfig gi (js_heap s)")
  define h2 where "h2 = snd (getCacheConfig gi h)"
  obtain p where g2: "getCachePath_2019 gi (Some classifier) h = (p, h2)"
    by (cases "getCachePath_2019 gi (Some classifier) h")
       (simp add: h2_def getCachePath_2019_def Let_def split: prod.splits)
  have b: "bucket (objects h2 r) = target_bucket gi s"
    using objects_getCacheConfig_twice [of gi "js_heap s"] g1
    by (simp add: target_bucket_def h2_def)
  have p: "target_path_2019 gi classifier s = p"
    using g1 g2 by (simp add: target_path_2019_def)
  obtain res w where o: "op storage (target_bucket gi s) p (world s) = (res, w)"
    by (cases "op storage (target_bucket gi s) p (world s)")
  show ?thesis
    by (cases res)
       (simp_all add: gcs_2019_def g1 g2 b p h2_def [symmetric] o gcs_finish_def target_uri_2019_def
          failed_to_def ll_def Let_def)
qed

lemma fst_gcs_finish:
  "fst (gcs_finish verb uri s1 rw) =
     (case fst rw of
        Inr v \<Rightarrow> Inr ()
      | Inl e \<Rightarrow> if verb = ''retrieve'' then Inl (failed_to verb uri e) else Inr ())"
  by (simp add: gcs_finish_def split: sum.splits)

lemma last_logger_gcs_finish:
  "last (logger (snd (gcs_finish verb uri s1 rw))) =
     (case fst rw of
        Inr v \<Rightarrow> (logger_debug, verb @ ''d cache archive '' @ uri)
      | Inl e \<Rightarrow> (logger_error, message (failed_to verb uri e)))"
  by (simp add: gcs_finish_def ll_def split: sum.splits)

lemma world_gcs_finish: "world (snd (gcs_finish verb uri s1 rw)) = snd rw"
  by (simp add: gcs_finish_def ll_def split: sum.splits)

lemma js_heap_gcs_finish: "js_heap (snd (gcs_finish verb uri s1 rw)) = js_heap s1"
  by (simp add: gcs_finish_def ll_def split: sum.splits)

lemma doWithRetry_request_ok:
  "faults w = [] \<Longrightarrow> act w = (Inr v, w') \<Longrightarrow> doWithRetry n (request act) w = (Inr v, w')"
  by (cases n) (simp_all add: request_def)

lemma js_heap_gcs: "js_heap (snd (gcs storage retries gi c op verb s)) = snd (getCacheConfig gi (js_heap s))"
  by (simp add: gcs_unfold js_heap_gcs_finish ll_def)

lemma world_gcs:
  "world (snd (gcs storage retries gi c op verb s)) =
     snd (doWithRetry retries (op storage (target_bucket gi s) (target_path gi c s)) (world s))"
  by (simp add: gcs_unfold world_gcs_finish)

lemma fst_gcs:
  "fst (doWithRetry retries (op storage (target_bucket gi s) (target_path gi c s)) (world s)) = Inr v
   \<Longrightarrow> fst (gcs storage retries gi c op verb s) = Inr ()"
  by (simp add: gcs_unfold fst_gcs_finish)

lemma js_heap_gcs_2019:
  "js_heap (snd (gcs_2019 storage gi c op verb s))
     = snd (getCacheConfig gi (snd (getCacheConfig gi (js_heap s))))"
  by (simp add: gcs_2019_unfold js_heap_gcs_finish ll_def)

lemma world_gcs_2019:
  "world (snd (gcs_2019 storage gi c op verb s)) =
     snd (op storage (target_bucket gi s) (target_path_2019 gi c s) (world s))"
  by (simp add: gcs_2019_unfold world_gcs_finish)

lemma fst_gcs_2019:
  "fst (op storage (target_bucket gi s) (target_path_2019 gi c s) (world s)) = Inr v
   \<Longrightarrow> fst (gcs_2019 storage gi c op verb s) = Inr ()"
  by (simp add: gcs_2019_unfold fst_gcs_finish)

lemma target_stable:
  assumes "js_heap s' = snd (getCacheConfig gi (js_heap s))"
  shows "target_bucket gi s' = target_bucket gi s"
    and "target_path gi c s' = target_path gi c s"
    and "target_path_2019 gi c s' = target_path_2019 gi c s"
  using assms
  by (simp_all add: target_bucket_def target_path_def target_path_2019_def resolved_stable
        getCachePath_2019_path)

lemma target_bucket_Some:
  "target_bucket gi s = Some (or_string (bucket (supplied gi (js_heap s)))
      (default_bucket (context_workspaceId gi) (configuration_name gi)))"
  by (simp add: target_bucket_def resolved_fields)

lemma target_uri_test:
  "target_uri (gi_test ''@byrds/sweetheart-of-the-rodeo'' (Some 0)) ''i-am-a-pilgrim'' (s_test fs)
     = ''gs://hickory-wind/lazy/days/i-am-a-pilgrim/cache.tar.gz''"
  by (simp add: target_uri_def target_bucket_def target_path_def getCachePath_def s_test_def
        blk_test_def with_block_def gi_test_def resolved_fields supplied_def or_string_def
        or_bool_def template_string_def element_string_def)

lemma target_test:
  "target_bucket (gi_test ''@byrds/sweetheart-of-the-rodeo'' (Some 0)) (s_test fs) = Some ''hickory-wind''"
  "target_path (gi_test ''@byrds/sweetheart-of-the-rodeo'' (Some 0)) ''i-am-a-pilgrim'' (s_test fs)
     = ''lazy/days/i-am-a-pilgrim/cache.tar.gz''"
  by (simp_all add: target_bucket_def target_path_def getCachePath_def s_test_def
        blk_test_def with_block_def gi_test_def resolved_fields supplied_def or_string_def
        or_bool_def element_string_def)

lemma persistent_download:
  "fst (doWithRetry 2 (download memory_storage b p t) (world (s_test [Some ''boom'', Some ''boom'', Some ''boom''])))
     = Inl \<lparr>message = ''boom''\<rparr>"
  by (simp add: numeral_2_eq_2 memory_storage_def request_def s_test_def)

lemma target_path_2019_heap:
  "target_path_2019 gi c s = fst (getCachePath_2019 gi (Some c) (js_heap s))"
  by (simp add: target_path_2019_def getCachePath_2019_path)

lemma getCachePath_2019_test:
  "fst (getCachePath_2019 (gi_test ''@byrds/sweetheart-of-the-rodeo'' (Some 0))
          (Some ''i-am-a-pilgrim'') (with_block blk_test))
     = ''lazy/days/TH3BY4D5/i-am-a-pilgrim/cache.tar.gz''"
  by code_simp

lemma target_2019_test:
  "target_path_2019 (gi_test ''@byrds/sweetheart-of-the-rodeo'' (Some 0)) ''i-am-a-pilgrim'' (s_test fs)
     = ''lazy/days/TH3BY4D5/i-am-a-pilgrim/cache.tar.gz''"
  "target_uri_2019 (gi_test ''@byrds/sweetheart-of-the-rodeo'' (Some 0)) ''i-am-a-pilgrim'' (s_test fs)
     = ''gs://hickory-wind/lazy/days/TH3BY4D5/i-am-a-pilgrim/cache.tar.gz''"
  using getCachePath_2019_test target_test(1) [of fs]
  by (simp_all add: target_uri_2019_def target_path_2019_heap s_test_def template_string_def)

lemma last_logger_gcs_2019:
  "last (logger (snd (gcs_2019 storage gi c op verb s))) =
     (case fst (op storage (target_bucket gi s) (target_path_2019 gi c s) (world s)) of
        Inr v \<Rightarrow> (logger_debug, verb @ ''d cache archive '' @ target_uri_2019 gi c s)
      | Inl e \<Rightarrow> (logger_error, message (failed_to verb (target_uri_2019 gi c s) e)))"
  by (simp add: gcs_2019_unfold last_logger_gcs_finish)

lemma persistent_upload:
  "fst (doWithRetry 2 (upload memory_storage b f p)
          (world (s_test [Some ''boom'', Some ''boom'', Some ''boom''])))
     = Inl \<lparr>message = ''boom''\<rparr>"
  "fst (upload memory_storage b f p (world (s_test [Some ''boom'', Some ''boom'', Some ''boom''])))
     = Inl \<lparr>message = ''boom''\<rparr>"
  by (simp_all add: numeral_2_eq_2 memory_storage_def request_def s_test_def)

text \<open>
  Claim C1.  Whatever the storage client does, \<open>store\<close> and \<open>delete\<close> return
  normally, and \<open>retrieve\<close> returns normally when the download, after its retries,
  succeeds.  When the download fails for good with an error, \<open>retrieve\<close> raises that
  error with its message rewritten to \<open>Failed to retrieve cache archive\<close>, the object
  URI, a colon and the original message.  The last line each of the three operations
  logs is the success line, or at error level the rewritten message of the failure, which
  \<open>store\<close> and \<open>delete\<close> swallow and \<open>retrieve\<close> raises.  The version of 2019,
  which calls the storage once, returns, raises and logs in the same way.
\<close>

theorem gcs_failure_propagation:
  fixes storage :: "'w Storage" and s :: "'w state"
  shows
  "fst (store storage retries gi c archivePath s) = Inr ()
   \<and> fst (delete storage retries gi c s) = Inr ()
   \<and> fst (retrieve storage retries gi c targetArchivePath s) =
       (case fst (doWithRetry retries
                    (download storage (target_bucket gi s) (target_path gi c s) targetArchivePath)
                    (world s)) of
          Inr v \<Rightarrow> Inr ()
        | Inl e \<Rightarrow> Inl (e\<lparr>message := ''Failed to retrieve cache archive '' @ target_uri gi c s
                                        @ '': '' @ message e\<rparr>))
   \<and> last (logger (snd (store storage retries gi c archivePath s))) =
       (case fst (doWithRetry retries
                    (upload storage (target_bucket gi s) archivePath (target_path gi c s))
                    (world s)) of
          Inr v \<Rightarrow> (logger_debug, ''stored cache archive '' @ target_uri gi c s)
        | Inl e \<Rightarrow> (logger_error, ''Failed to store cache archive '' @ target_uri gi c s
                                    @ '': '' @ message e))
   \<and> last (logger (snd (delete storage retries gi c s))) =
       (case fst (doWithRetry retries
                    (delete_file storage (target_bucket gi s) (target_path gi c s))
                    (world s)) of
          Inr v \<Rightarrow> (logger_debug, ''deleted cache archive '' @ target_uri gi c s)
        | Inl e \<Rightarrow> (logger_error, ''Failed to delete cache archive '' @ target_uri gi c s
                                    @ '': '' @ message e))
   \<and> last (logger (snd (retrieve storage retries gi c targetArchivePath s))) =
       (case fst (doWithRetry retries
                    (download storage (target_bucket gi s) (target_path gi c s) targetArchivePath)
                    (world s)) of
          Inr v \<Rightarrow> (logger_debug, ''retrieved cache archive '' @ target_uri gi c s)
        | Inl e \<Rightarrow> (logger_error, ''Failed to retrieve cache archive '' @ target_uri gi c s
                                    @ '': '' @ message e))
   \<and> fst (store_2019 storage gi c archivePath s) = Inr ()
   \<and> fst (delete_2019 storage gi c s) = Inr ()
   \<and> fst (retrieve_2019 storage gi c targetArchivePath s) =
       (case fst (download storage (target_bucket gi s) (target_path_2019 gi c s)
                    targetArchivePath (world s)) of
          Inr v \<Rightarrow> Inr ()
        | Inl e \<Rightarrow> Inl (e\<lparr>message := ''Failed to retrieve cache archive ''
                                        @ target_uri_2019 gi c s @ '': '' @ message e\<rparr>))
   \<and> last (logger (snd (store_2019 storage gi c archivePath s))) =
       (case fst (upload storage (target_bucket gi s) archivePath (target_path_2019 gi c s)
                    (world s)) of
          Inr v \<Rightarrow> (logger_debug, ''stored cache archive '' @ target_uri_2019 gi c s)
        | Inl e \<Rightarrow> (logger_error, ''Failed to store cache archive '' @ target_uri_2019 gi c s
                                    @ '': '' @ message e))
   \<and> last (logger (snd (delete_2019 storage gi c s))) =
       (case fst (delete_file storage (target_bucket gi s) (target_path_2019 gi c s)
                    (world s)) of
          Inr v \<Rightarrow> (logger_debug, ''deleted cache archive '' @ target_uri_2019 gi c s)
        | Inl e \<Rightarrow> (logger_error, ''Failed to delete cache archive '' @ target_uri_2019 gi c s
                                    @ '': '' @ message e))
   \<and> last (logger (snd (retrieve_2019 storage gi c targetArchivePath s))) =
       (case fst (download storage (target_bucket gi s) (target_path_2019 gi c s)
                    targetArchivePath (world s)) of
          Inr v \<Rightarrow> (logger_debug, ''retrieved cache archive '' @ target_uri_2019 gi c s)
        | Inl e \<Rightarrow> (logger_error, ''Failed to retrieve cache archive ''
                                    @ target_uri_2019 gi c s @ '': '' @ message e))"
  by (simp add: store_def delete_def retrieve_def store_2019_def delete_2019_def
        retrieve_2019_def gcs_unfold gcs_2019_unfold fst_gcs_finish last_logger_gcs_finish
        failed_to_def split: sum.splits)

text \<open>
  Claim C1 on the store in memory with two retries and three failing calls: the
  download fails for good, \<open>retrieve\<close> raises the rewritten error, \<open>store\<close> and
  \<open>delete\<close> return normally, and the \<open>store\<close> of each version logs the failure it
  swallows.
\<close>

theorem gcs_failure_propagation_witness:
  "fst (doWithRetry 2
          (download memory_storage (Some ''hickory-wind'') ''lazy/days/i-am-a-pilgrim/cache.tar.gz''
             ''out.tar.gz'')
          (world (s_test [Some ''boom'', Some ''boom'', Some ''boom''])))
     = Inl \<lparr>message = ''boom''\<rparr>
   \<and> fst (retrieve memory_storage 2 (gi_test ''@byrds/sweetheart-of-the-rodeo'' (Some 0))
        ''i-am-a-pilgrim'' ''out.tar.gz'' (s_test [Some ''boom'', Some ''boom'', Some ''boom'']))
     = Inl \<lparr>message = ''Failed to retrieve cache archive gs://hickory-wind/lazy/days/i-am-a-pilgrim/cache.tar.gz: boom''\<rparr>
   \<and> fst (store memory_storage 2 (gi_test ''@byrds/sweetheart-of-the-rodeo'' (Some 0))
        ''i-am-a-pilgrim'' ''in.tar.gz'' (s_test [Some ''boom'', Some ''boom'', Some ''boom'']))
     = Inr ()
   \<and> fst (delete memory_storage 2 (gi_test ''@byrds/sweetheart-of-the-rodeo'' (Some 0))
        ''i-am-a-pilgrim'' (s_test [Some ''boom'', Some ''boom'', Some ''boom'']))
     = Inr ()
   \<and> last (logger (snd (store memory_storage 2 (gi_test ''@byrds/sweetheart-of-the-rodeo'' (Some 0))
        ''i-am-a-pilgrim'' ''in.tar.gz'' (s_test [Some ''boom'', Some ''boom'', Some ''boom'']))))
     = (logger_error,
        ''Failed to store cache archive gs://hickory-wind/lazy/days/i-am-a-pilgrim/cache.tar.gz: boom'')
   \<and> fst (store_2019 memory_storage (gi_test ''@byrds/sweetheart-of-the-rodeo'' (Some 0))
        ''i-am-a-pilgrim'' ''in.tar.gz'' (s_test [Some ''boom'', Some ''boom'', Some ''boom'']))
     = Inr ()
   \<and> last (logger (snd (store_2019 memory_storage (gi_test ''@byrds/sweetheart-of-the-rodeo'' (Some 0))
        ''i-am-a-pilgrim'' ''in.tar.gz'' (s_test [Some ''boom'', Some ''boom'', Some ''boom'']))))
     = (logger_error,
        ''Failed to store cache archive gs://hickory-wind/lazy/days/TH3BY4D5/i-am-a-pilgrim/cache.tar.gz: boom'')"
  using gcs_failure_propagation [of memory_storage 2
      "gi_test ''@byrds/sweetheart-of-the-rodeo'' (Some 0)" "''i-am-a-pilgrim''" "''in.tar.gz''"
      "s_test [Some ''boom'', Some ''boom'', Some ''boom'']" "''out.tar.gz''"]
  by (simp add: target_uri_test target_test target_2019_test persistent_download
        persistent_upload)

lemma getCachePath_test:
  "getCachePath
     (resolved (gi_test ''@byrds/sweetheart-of-the-rodeo'' (Some 0)) (with_block blk_test))
     (Some ''i-am-a-pilgrim'')
     = ''lazy/days/i-am-a-pilgrim/cache.tar.gz''"
  by code_simp

text \<open>
  Claim C2, on the input of the repository's test "should return a reasonable path".
  The version of 2019 returns \<open>lazy/days/TH3BY4D5/i-am-a-pilgrim/cache.tar.gz\<close> and the
  version of 2020, given the resolved configuration, returns
  \<open>lazy/days/i-am-a-pilgrim/cache.tar.gz\<close>; neither puts the provider, owner,
  repository and branch into the path or the revision before \<open>cache.tar.gz\<close>, as the
  claim and the test expect.
\<close>

theorem getCachePath_test_input:
  "fst (getCachePath_2019 (gi_test ''@byrds/sweetheart-of-the-rodeo'' (Some 0))
          (Some ''i-am-a-pilgrim'') (with_block blk_test))
     = ''lazy/days/TH3BY4D5/i-am-a-pilgrim/cache.tar.gz''
   \<and> getCachePath
         (resolved (gi_test ''@byrds/sweetheart-of-the-rodeo'' (Some 0)) (with_block blk_test))
         (Some ''i-am-a-pilgrim'')
     = ''lazy/days/i-am-a-pilgrim/cache.tar.gz''"
  using getCachePath_2019_test getCachePath_test by simp

lemma doWithRetry_counting:
  "doWithRetry n (counting what) (w, c, f) = (r, (w', c', f')) \<Longrightarrow>
     c < c' \<and> c' \<le> c + n + 1 \<and>
     (case r of Inl e \<Rightarrow> c' = c + n + 1 \<and> f' = f + n + 1 | Inr v \<Rightarrow> f' + c + 1 = c' + f)"
proof (induction n arbitrary: w c f)
  case 0
  then show ?case
    by (auto simp: counting_def split: prod.splits sum.splits)
next
  case (Suc n)
  obtain r0 w0 where w0: "what w = (r0, w0)"
    by (cases "what w")
  show ?case
  proof (cases r0)
    case (Inl e)
    with Suc.prems w0 have "doWithRetry n (counting what) (w0, Suc c, Suc f) = (r, (w', c', f'))"
      by (simp add: counting_def)
    from Suc.IH [OF this] show ?thesis
      by (auto split: sum.splits)
  next
    case (Inr v)
    with Suc.prems w0 show ?thesis
      by (auto simp: counting_def)
  qed
qed

lemma doWithRetry_counting_same:
  "fst (doWithRetry n (counting what) (w, c, f)) = fst (doWithRetry n what w)
   \<and> fst (snd (doWithRetry n (counting what) (w, c, f))) = snd (doWithRetry n what w)"
proof (induction n arbitrary: w c f)
  case 0
  show ?case
    by (simp add: counting_def split: prod.splits sum.splits)
next
  case (Suc n)
  obtain r0 w0 where w0: "what w = (r0, w0)"
    by (cases "what w")
  show ?case
  proof (cases r0)
    case (Inl e)
    with w0 Suc.IH [of w0 "Suc c" "Suc f"] show ?thesis
      by (simp add: counting_def)
  next
    case (Inr v)
    with w0 show ?thesis
      by (simp add: counting_def)
  qed
qed

lemma gcs_bounded_attempts:
  assumes "world s = (w, 0, 0)"
    and "op storage (target_bucket gi s) (target_path gi c s) = counting what"
  shows "bounded_attempts retries (snd (gcs storage retries gi c op verb s))"
proof -
  obtain r w' c' f' where d: "doWithRetry retries (counting what) (w, 0, 0) = (r, (w', c', f'))"
    by (metis surj_pair)
  from doWithRetry_counting [OF d] show ?thesis
    by (cases r)
       (simp_all add: bounded_attempts_def calls_def failures_def gcs_unfold assms d
          world_gcs_finish last_logger_gcs_finish)
qed

lemma gcs_2019_single_attempt:
  assumes "world s = (w, 0, 0)"
    and "op storage (target_bucket gi s) (target_path_2019 gi c s) = counting what"
  shows "single_attempt (snd (gcs_2019 storage gi c op verb s))"
proof -
  obtain r w' where d: "what w = (r, w')"
    by (cases "what w")
  show ?thesis
    by (cases r)
       (simp_all add: single_attempt_def calls_def failures_def gcs_2019_unfold assms d
          world_gcs_finish last_logger_gcs_finish counting_def)
qed

text \<open>
  Claim C6, amended.  In the version of 2020 every operation makes at least one and at
  most \<open>retries + 1\<close> storage calls; when it ends by logging a failure, it has made
  exactly \<open>retries + 1\<close> calls and all of them failed, and when it ends by logging
  success, every call but the last one failed.  In the version of 2019 every operation
  makes exactly one storage call, and a failure of that call is final at once.
\<close>

theorem bounded_retry:
  fixes storage :: "'w Storage" and s :: "('w \<times> nat \<times> nat) state"
  shows
  "bounded_attempts retries
     (snd (store (counting_storage storage) retries gi c archivePath (s\<lparr>world := (w, 0, 0)\<rparr>)))
   \<and> bounded_attempts retries
     (snd (retrieve (counting_storage storage) retries gi c targetArchivePath (s\<lparr>world := (w, 0, 0)\<rparr>)))
   \<and> bounded_attempts retries
     (snd (delete (counting_storage storage) retries gi c (s\<lparr>world := (w, 0, 0)\<rparr>)))
   \<and> single_attempt
     (snd (store_2019 (counting_storage storage) gi c archivePath (s\<lparr>world := (w, 0, 0)\<rparr>)))
   \<and> single_attempt
     (snd (retrieve_2019 (counting_storage storage) gi c targetArchivePath (s\<lparr>world := (w, 0, 0)\<rparr>)))
   \<and> single_attempt
     (snd (delete_2019 (counting_storage storage) gi c (s\<lparr>world := (w, 0, 0)\<rparr>)))"
proof (intro conjI)
  show "bounded_attempts retries
     (snd (store (counting_storage storage) retries gi c archivePath (s\<lparr>world := (w, 0, 0)\<rparr>)))"
    unfolding store_def
    by (rule gcs_bounded_attempts [where w = w]) (simp_all add: counting_storage_def)
  show "bounded_attempts retries
     (snd (retrieve (counting_storage storage) retries gi c targetArchivePath (s\<lparr>world := (w, 0, 0)\<rparr>)))"
    unfolding retrieve_def
    by (rule gcs_bounded_attempts [where w = w]) (simp_all add: counting_storage_def)
  show "bounded_attempts retries
     (snd (delete (counting_storage storage) retries gi c (s\<lparr>world := (w, 0, 0)\<rparr>)))"
    unfolding delete_def
    by (rule gcs_bounded_attempts [where w = w]) (simp_all add: counting_storage_def)
  show "single_attempt
     (snd (store_2019 (counting_storage storage) gi c archivePath (s\<lparr>world := (w, 0, 0)\<rparr>)))"
    unfolding store_2019_def
    by (rule gcs_2019_single_attempt [where w = w]) (simp_all add: counting_storage_def)
  show "single_attempt
     (snd (retrieve_2019 (counting_storage storage) gi c targetArchivePath (s\<lparr>world := (w, 0, 0)\<rparr>)))"
    unfolding retrieve_2019_def
    by (rule gcs_2019_single_attempt [where w = w]) (simp_all add: counting_storage_def)
  show "single_attempt
     (snd (delete_2019 (counting_storage storage) gi c (s\<lparr>world := (w, 0, 0)\<rparr>)))"
    unfolding delete_2019_def
    by (rule gcs_2019_single_attempt [where w = w]) (simp_all add: counting_storage_def)
qed

lemma counted_world: "(counted s)\<lparr>world := (world s, 0, 0)\<rparr> = counted s"
  by (simp add: counted_def)

lemma store_transient_2020:
  "calls (snd (store (counting_storage memory_storage) 2
            (gi_test ''@byrds/sweetheart-of-the-rodeo'' (Some 0)) ''i-am-a-pilgrim'' ''in.tar.gz''
            (counted (s_test [Some ''ECONNRESET''])))) = 2
   \<and> failures (snd (store (counting_storage memory_storage) 2
            (gi_test ''@byrds/sweetheart-of-the-rodeo'' (Some 0)) ''i-am-a-pilgrim'' ''in.tar.gz''
            (counted (s_test [Some ''ECONNRESET''])))) = 1
   \<and> object_at (fst (world (snd (store (counting_storage memory_storage) 2
            (gi_test ''@byrds/sweetheart-of-the-rodeo'' (Some 0)) ''i-am-a-pilgrim'' ''in.tar.gz''
            (counted (s_test [Some ''ECONNRESET'']))))))
         (Some ''hickory-wind'') ''lazy/days/i-am-a-pilgrim/cache.tar.gz'' = Some ''Test junk''"
  by code_simp

text \<open>
  The amended claim C6 on a store in memory whose next call fails and whose later calls
  succeed: the version of 2020 with two retries calls twice and stores the object.
\<close>

theorem bounded_retry_witness:
  "bounded_attempts 2 (snd (store (counting_storage memory_storage) 2
            (gi_test ''@byrds/sweetheart-of-the-rodeo'' (Some 0)) ''i-am-a-pilgrim'' ''in.tar.gz''
            (counted (s_test [Some ''ECONNRESET'']))))
   \<and> calls (snd (store (counting_storage memory_storage) 2
            (gi_test ''@byrds/sweetheart-of-the-rodeo'' (Some 0)) ''i-am-a-pilgrim'' ''in.tar.gz''
            (counted (s_test [Some ''ECONNRESET''])))) = 2
   \<and> failures (snd (store (counting_storage memory_storage) 2
            (gi_test ''@byrds/sweetheart-of-the-rodeo'' (Some 0)) ''i-am-a-pilgrim'' ''in.tar.gz''
            (counted (s_test [Some ''ECONNRESET''])))) = 1
   \<and> object_at (fst (world (snd (store (counting_storage memory_storage) 2
            (gi_test ''@byrds/sweetheart-of-the-rodeo'' (Some 0)) ''i-am-a-pilgrim'' ''in.tar.gz''
            (counted (s_test [Some ''ECONNRESET'']))))))
         (Some ''hickory-wind'') ''lazy/days/i-am-a-pilgrim/cache.tar.gz'' = Some ''Test junk''"
  using bounded_retry [where retries = 2 and storage = memory_storage
      and gi = "gi_test ''@byrds/sweetheart-of-the-rodeo'' (Some 0)"
      and c = "''i-am-a-pilgrim''" and archivePath = "''in.tar.gz''"
      and s = "counted (s_test [Some ''ECONNRESET''])"
      and w = "world (s_test [Some ''ECONNRESET''])"]
    store_transient_2020
  by (simp add: counted_world)

lemma target_counted:
  "target_bucket gi (counted s) = target_bucket gi s"
  "target_path gi c (counted s) = target_path gi c s"
  "target_path_2019 gi c (counted s) = target_path_2019 gi c s"
  "target_uri gi c (counted s) = target_uri gi c s"
  "target_uri_2019 gi c (counted s) = target_uri_2019 gi c s"
  by (simp_all add: target_bucket_def target_path_def target_path_2019_def target_uri_def
        target_uri_2019_def counted_def)

lemma world_counted: "world (counted s) = (world s, 0, 0)"
  by (simp add: counted_def)

lemma world_s_test:
  "world (s_test fs) =
     \<lparr>bucket_objects = Map.empty, local_files = [''in.tar.gz'' \<mapsto> ''Test junk''], faults = fs\<rparr>"
  by (simp add: s_test_def)

text \<open>
  Claim C6, as stated, fails for the version of 2019.  On a store in memory whose next
  call fails and whose later calls succeed, \<open>store\<close> calls the storage once, logs the
  failure as final and leaves no object behind; on the same store without the fault the
  object is stored.
\<close>

theorem no_retry_2019_counterexample:
  "calls (snd (store_2019 (counting_storage memory_storage)
            (gi_test ''@byrds/sweetheart-of-the-rodeo'' (Some 0)) ''i-am-a-pilgrim'' ''in.tar.gz''
            (counted (s_test [Some ''ECONNRESET''])))) = 1
   \<and> failures (snd (store_2019 (counting_storage memory_storage)
            (gi_test ''@byrds/sweetheart-of-the-rodeo'' (Some 0)) ''i-am-a-pilgrim'' ''in.tar.gz''
            (counted (s_test [Some ''ECONNRESET''])))) = 1
   \<and> last (logger (snd (store_2019 (counting_storage memory_storage)
            (gi_test ''@byrds/sweetheart-of-the-rodeo'' (Some 0)) ''i-am-a-pilgrim'' ''in.tar.gz''
            (counted (s_test [Some ''ECONNRESET''])))))
       = (logger_error, ''Failed to store cache archive gs://hickory-wind/lazy/days/TH3BY4D5/i-am-a-pilgrim/cache.tar.gz: ECONNRESET'')
   \<and> object_at (fst (world (snd (store_2019 (counting_storage memory_storage)
            (gi_test ''@byrds/sweetheart-of-the-rodeo'' (Some 0)) ''i-am-a-pilgrim'' ''in.tar.gz''
            (counted (s_test [Some ''ECONNRESET'']))))))
         (Some ''hickory-wind'') ''lazy/days/TH3BY4D5/i-am-a-pilgrim/cache.tar.gz'' = None
   \<and> object_at (world (snd (store_2019 memory_storage
            (gi_test ''@byrds/sweetheart-of-the-rodeo'' (Some 0)) ''i-am-a-pilgrim'' ''in.tar.gz''
            (s_test []))))
         (Some ''hickory-wind'') ''lazy/days/TH3BY4D5/i-am-a-pilgrim/cache.tar.gz'' = Some ''Test junk''"
  by (simp add: store_2019_def calls_def failures_def world_gcs_2019 last_logger_gcs_2019
        target_counted target_2019_test target_test counting_storage_def counting_def
        memory_storage_def request_def memory_upload_def failed_to_def object_at_def
        world_counted world_s_test)

lemma retry_upload:
  "doWithRetry n (request (memory_upload (Some B) f P)) w = (r, w') \<Longrightarrow>
   local_files w f = Some content \<Longrightarrow>
   local_files w' = local_files w \<and>
   (case r of
      Inr v \<Rightarrow> bucket_objects w' = (bucket_objects w)((B, P) \<mapsto> content)
    | Inl e \<Rightarrow> bucket_objects w' = bucket_objects w)"
proof (induction n arbitrary: w)
  case 0
  then show ?case
    by (auto simp: request_def memory_upload_def split: list.splits option.splits)
next
  case (Suc n)
  show ?case
  proof (cases "request (memory_upload (Some B) f P) w")
    case (Pair r0 w0)
    show ?thesis
    proof (cases r0)
      case (Inl e)
      with Pair Suc.prems have d: "doWithRetry n (request (memory_upload (Some B) f P)) w0 = (r, w')"
        by simp
      from Pair Inl Suc.prems(2) have same: "local_files w0 = local_files w" "bucket_objects w0 = bucket_objects w"
        by (auto simp: request_def memory_upload_def split: list.splits option.splits)
      with Suc.prems(2) have "local_files w0 f = Some content"
        by simp
      from Suc.IH [OF d this] same show ?thesis
        by (cases r) simp_all
    next
      case (Inr v)
      with Pair Suc.prems show ?thesis
        by (auto simp: request_def memory_upload_def split: list.splits option.splits)
    qed
  qed
qed

lemma retry_download:
  "doWithRetry n (request (memory_download (Some B) P t)) w = (r, w') \<Longrightarrow>
   bucket_objects w (B, P) = Some content \<Longrightarrow>
   bucket_objects w' = bucket_objects w \<and>
   (case r of
      Inr v \<Rightarrow> local_files w' = (local_files w)(t \<mapsto> content)
    | Inl e \<Rightarrow> local_files w' = local_files w)"
proof (induction n arbitrary: w)
  case 0
  then show ?case
    by (auto simp: request_def memory_download_def split: list.splits option.splits)
next
  case (Suc n)
  show ?case
  proof (cases "request (memory_download (Some B) P t) w")
    case (Pair r0 w0)
    show ?thesis
    proof (cases r0)
      case (Inl e)
      with Pair Suc.prems have d: "doWithRetry n (request (memory_download (Some B) P t)) w0 = (r, w')"
        by simp
      from Pair Inl Suc.prems(2) have same: "local_files w0 = local_files w" "bucket_objects w0 = bucket_objects w"
        by (auto simp: request_def memory_download_def split: list.splits option.splits)
      with Suc.prems(2) have "bucket_objects w0 (B, P) = Some content"
        by simp
      from Suc.IH [OF d this] same show ?thesis
        by (cases r) simp_all
    next
      case (Inr v)
      with Pair Suc.prems show ?thesis
        by (auto simp: request_def memory_download_def split: list.splits option.splits)
    qed
  qed
qed

lemma retry_delete:
  "doWithRetry n (request (memory_delete (Some B) P)) w = (r, w') \<Longrightarrow>
   local_files w' = local_files w \<and>
   (case r of
      Inr v \<Rightarrow> bucket_objects w' (B, P) = None
    | Inl e \<Rightarrow> bucket_objects w' = bucket_objects w)"
proof (induction n arbitrary: w)
  case 0
  then show ?case
    by (auto simp: request_def memory_delete_def split: list.splits option.splits)
next
  case (Suc n)
  show ?case
  proof (cases "request (memory_delete (Some B) P) w")
    case (Pair r0 w0)
    show ?thesis
    proof (cases r0)
      case (Inl e)
      with Pair Suc.prems have d: "doWithRetry n (request (memory_delete (Some B) P)) w0 = (r, w')"
        by simp
      from Pair Inl have same: "local_files w0 = local_files w" "bucket_objects w0 = bucket_objects w"
        by (auto simp: request_def memory_delete_def split: list.splits option.splits)
      from Suc.IH [OF d] same show ?thesis
        by (cases r) simp_all
    next
      case (Inr v)
      with Pair Suc.prems show ?thesis
        by (auto simp: request_def memory_delete_def split: list.splits option.splits)
    qed
  qed
qed

lemma succeeded_gcs:
  "succeeded (snd (gcs storage retries gi c op verb s)) \<longleftrightarrow>
     (\<exists>v. fst (doWithRetry retries (op storage (target_bucket gi s) (target_path gi c s)) (world s)) = Inr v)"
  by (simp add: succeeded_def gcs_unfold last_logger_gcs_finish split: sum.splits)

lemma succeeded_gcs_2019:
  "succeeded (snd (gcs_2019 storage gi c op verb s)) \<longleftrightarrow>
     (\<exists>v. fst (op storage (target_bucket gi s) (target_path_2019 gi c s) (world s)) = Inr v)"
  by (simp add: succeeded_def gcs_2019_unfold last_logger_gcs_finish split: sum.splits)

lemma fst_retrieve_Inr:
  "fst (gcs storage retries gi c op ''retrieve'' s) = Inr () \<longleftrightarrow>
     (\<exists>v. fst (doWithRetry retries (op storage (target_bucket gi s) (target_path gi c s)) (world s)) = Inr v)"
  by (simp add: gcs_unfold fst_gcs_finish split: sum.splits)

lemma fst_retrieve_2019_Inr:
  "fst (gcs_2019 storage gi c op ''retrieve'' s) = Inr () \<longleftrightarrow>
     (\<exists>v. fst (op storage (target_bucket gi s) (target_path_2019 gi c s) (world s)) = Inr v)"
  by (simp add: gcs_2019_unfold fst_gcs_finish split: sum.splits)

lemma roundtrip_2020:
  fixes s :: "gcs_world state" and retries :: nat and gi :: GoalInvocation
    and c archivePath targetArchivePath content :: string
  assumes l: "local_files (world s) archivePath = Some content"
  defines "s1 \<equiv> snd (store memory_storage retries gi c archivePath s)"
  defines "r2 \<equiv> retrieve memory_storage retries gi c targetArchivePath s1"
  defines "s3 \<equiv> snd (delete memory_storage retries gi c (snd r2))"
  shows "succeeded s1 \<Longrightarrow>
           object_at (world s1) (target_bucket gi s) (target_path gi c s) = Some content"
    and "succeeded s1 \<Longrightarrow> fst r2 = Inr () \<Longrightarrow>
           local_files (world (snd r2)) targetArchivePath = Some content"
    and "succeeded s3 \<Longrightarrow>
           object_at (world s3) (target_bucket gi s) (target_path gi c s) = None"
    and "faults (world s) = [] \<Longrightarrow> succeeded s1 \<and> fst r2 = Inr () \<and> succeeded s3"
proof -
  obtain B where b: "target_bucket gi s = Some B"
    by (simp add: target_bucket_Some)
  define P where "P = target_path gi c s"
  obtain q1 W1 where up:
    "doWithRetry retries (request (memory_upload (Some B) archivePath P)) (world s) = (q1, W1)"
    by (metis surj_pair)
  have w1: "world s1 = W1"
    by (simp add: s1_def store_def world_gcs b P_def [symmetric] memory_storage_def up)
  have ok1: "succeeded s1 \<longleftrightarrow> (\<exists>v. q1 = Inr v)"
    by (simp add: s1_def store_def succeeded_gcs b P_def [symmetric] memory_storage_def up)
  have h1: "js_heap s1 = snd (getCacheConfig gi (js_heap s))"
    by (simp add: s1_def store_def js_heap_gcs)
  have t1: "target_bucket gi s1 = Some B" "target_path gi c s1 = P"
    using target_stable [OF h1] b by (simp_all add: P_def)
  obtain q2 W2 where down:
    "doWithRetry retries (request (memory_download (Some B) P targetArchivePath)) W1 = (q2, W2)"
    by (metis surj_pair)
  have w2: "world (snd r2) = W2"
    by (simp add: r2_def retrieve_def world_gcs t1 w1 memory_storage_def down)
  have ok2: "fst r2 = Inr () \<longleftrightarrow> (\<exists>v. q2 = Inr v)"
    by (simp add: r2_def retrieve_def fst_retrieve_Inr t1 w1 memory_storage_def down)
  have h2: "js_heap (snd r2) = snd (getCacheConfig gi (js_heap s1))"
    by (simp add: r2_def retrieve_def js_heap_gcs)
  have t2: "target_bucket gi (snd r2) = Some B" "target_path gi c (snd r2) = P"
    using target_stable [OF h2] t1 by simp_all
  obtain q3 W3 where del:
    "doWithRetry retries (request (memory_delete (Some B) P)) W2 = (q3, W3)"
    by (metis surj_pair)
  have w3: "world s3 = W3"
    by (simp add: s3_def delete_def world_gcs t2 w2 memory_storage_def del)
  have ok3: "succeeded s3 \<longleftrightarrow> (\<exists>v. q3 = Inr v)"
    by (simp add: s3_def delete_def succeeded_gcs t2 w2 memory_storage_def del)
  have stored: "bucket_objects W1 (B, P) = Some content" if "succeeded s1"
    using retry_upload [OF up l] that ok1 by auto
  show "object_at (world s1) (target_bucket gi s) (target_path gi c s) = Some content"
    if "succeeded s1"
    using stored [OF that] by (simp add: w1 b P_def [symmetric] object_at_def)
  show "local_files (world (snd r2)) targetArchivePath = Some content"
    if "succeeded s1" "fst r2 = Inr ()"
    using retry_download [OF down stored [OF that(1)]] that(2) ok2 by (auto simp: w2)
  show "object_at (world s3) (target_bucket gi s) (target_path gi c s) = None"
    if "succeeded s3"
    using retry_delete [OF del] that ok3 by (auto simp: w3 b P_def [symmetric] object_at_def)
  show "succeeded s1 \<and> fst r2 = Inr () \<and> succeeded s3" if f: "faults (world s) = []"
  proof -
    define V1 where "V1 = (world s)\<lparr>bucket_objects := (bucket_objects (world s))((B, P) \<mapsto> content)\<rparr>"
    have "doWithRetry retries (request (memory_upload (Some B) archivePath P)) (world s) = (Inr (), V1)"
      by (rule doWithRetry_request_ok) (simp_all add: f l V1_def memory_upload_def)
    with up have e1: "q1 = Inr ()" "W1 = V1"
      by simp_all
    define V2 where "V2 = V1\<lparr>local_files := (local_files V1)(targetArchivePath \<mapsto> content)\<rparr>"
    have "doWithRetry retries (request (memory_download (Some B) P targetArchivePath)) V1 = (Inr (), V2)"
      by (rule doWithRetry_request_ok) (simp_all add: f V1_def V2_def memory_download_def)
    with down e1 have e2: "q2 = Inr ()" "W2 = V2"
      by simp_all
    define V3 where "V3 = V2\<lparr>bucket_objects := (bucket_objects V2)((B, P) := None)\<rparr>"
    have "doWithRetry retries (request (memory_delete (Some B) P)) V2 = (Inr (), V3)"
      by (rule doWithRetry_request_ok) (simp_all add: f V1_def V2_def V3_def memory_delete_def)
    with del e2 have e3: "q3 = Inr ()"
      by simp
    from e1 e2 e3 show ?thesis
      by (simp add: ok1 ok2 ok3)
  qed
qed

lemma roundtrip_2019:
  fixes s :: "gcs_world state" and gi :: GoalInvocation
    and c archivePath targetArchivePath content :: string
  assumes l: "local_files (world s) archivePath = Some content"
  defines "s1 \<equiv> snd (store_2019 memory_storage gi c archivePath s)"
  defines "r2 \<equiv> retrieve_2019 memory_storage gi c targetArchivePath s1"
  defines "s3 \<equiv> snd (delete_2019 memory_storage gi c (snd r2))"
  shows "succeeded s1 \<Longrightarrow>
           object_at (world s1) (target_bucket gi s) (target_path_2019 gi c s) = Some content"
    and "succeeded s1 \<Longrightarrow> fst r2 = Inr () \<Longrightarrow>
           local_files (world (snd r2)) targetArchivePath = Some content"
    and "succeeded s3 \<Longrightarrow>
           object_at (world s3) (target_bucket gi s) (target_path_2019 gi c s) = None"
    and "faults (world s) = [] \<Longrightarrow> succeeded s1 \<and> fst r2 = Inr () \<and> succeeded s3"
proof -
  obtain B where b: "target_bucket gi s = Some B"
    by (simp add: target_bucket_Some)
  define P where "P = target_path_2019 gi c s"
  obtain q1 W1 where up:
    "doWithRetry 0 (request (memory_upload (Some B) archivePath P)) (world s) = (q1, W1)"
    by (metis surj_pair)
  have w1: "world s1 = W1"
    using up by (simp add: s1_def store_2019_def world_gcs_2019 b P_def [symmetric] memory_storage_def)
  have ok1: "succeeded s1 \<longleftrightarrow> (\<exists>v. q1 = Inr v)"
    using up by (simp add: s1_def store_2019_def succeeded_gcs_2019 b P_def [symmetric] memory_storage_def)
  have h1: "js_heap s1 = snd (getCacheConfig gi (snd (getCacheConfig gi (js_heap s))))"
    by (simp add: s1_def store_2019_def js_heap_gcs_2019)
  have t1: "target_bucket gi s1 = Some B" "target_path_2019 gi c s1 = P"
    using b by (simp_all add: P_def target_bucket_def target_path_2019_def h1 resolved_stable
          getCachePath_2019_path)
  obtain q2 W2 where down:
    "doWithRetry 0 (request (memory_download (Some B) P targetArchivePath)) W1 = (q2, W2)"
    by (metis surj_pair)
  have w2: "world (snd r2) = W2"
    using down by (simp add: r2_def retrieve_2019_def world_gcs_2019 t1 w1 memory_storage_def)
  have ok2: "fst r2 = Inr () \<longleftrightarrow> (\<exists>v. q2 = Inr v)"
    using down by (simp add: r2_def retrieve_2019_def fst_retrieve_2019_Inr t1 w1 memory_storage_def)
  have h2: "js_heap (snd r2) = snd (getCacheConfig gi (snd (getCacheConfig gi (js_heap s1))))"
    by (simp add: r2_def retrieve_2019_def js_heap_gcs_2019)
  have t2: "target_bucket gi (snd r2) = Some B" "target_path_2019 gi c (snd r2) = P"
    using t1 by (simp_all add: target_bucket_def target_path_2019_def h2 resolved_stable
          getCachePath_2019_path)
  obtain q3 W3 where del:
    "doWithRetry 0 (request (memory_delete (Some B) P)) W2 = (q3, W3)"
    by (metis surj_pair)
  have w3: "world s3 = W3"
    using del by (simp add: s3_def delete_2019_def world_gcs_2019 t2 w2 memory_storage_def)
  have ok3: "succeeded s3 \<longleftrightarrow> (\<exists>v. q3 = Inr v)"
    using del by (simp add: s3_def delete_2019_def succeeded_gcs_2019 t2 w2 memory_storage_def)
  have stored: "bucket_objects W1 (B, P) = Some content" if "succeeded s1"
    using retry_upload [OF up l] that ok1 by auto
  show "object_at (world s1) (target_bucket gi s) (target_path_2019 gi c s) = Some content"
    if "succeeded s1"
    using stored [OF that] by (simp add: w1 b P_def [symmetric] object_at_def)
  show "local_files (world (snd r2)) targetArchivePath = Some content"
    if "succeeded s1" "fst r2 = Inr ()"
    using retry_download [OF down stored [OF that(1)]] that(2) ok2 by (auto simp: w2)
  show "object_at (world s3) (target_bucket gi s) (target_path_2019 gi c s) = None"
    if "succeeded s3"
    using retry_delete [OF del] that ok3 by (auto simp: w3 b P_def [symmetric] object_at_def)
  show "succeeded s1 \<and> fst r2 = Inr () \<and> succeeded s3" if f: "faults (world s) = []"
  proof -
    define V1 where "V1 = (world s)\<lparr>bucket_objects := (bucket_objects (world s))((B, P) \<mapsto> content)\<rparr>"
    have "doWithRetry 0 (request (memory_upload (Some B) archivePath P)) (world s) = (Inr (), V1)"
      by (rule doWithRetry_request_ok) (simp_all add: f l V1_def memory_upload_def)
    with up have e1: "q1 = Inr ()" "W1 = V1"
      by simp_all
    define V2 where "V2 = V1\<lparr>local_files := (local_files V1)(targetArchivePath \<mapsto> content)\<rparr>"
    have "doWithRetry 0 (request (memory_download (Some B) P targetArchivePath)) V1 = (Inr (), V2)"
      by (rule doWithRetry_request_ok) (simp_all add: f V1_def V2_def memory_download_def)
    with down e1 have e2: "q2 = Inr ()" "W2 = V2"
      by simp_all
    define V3 where "V3 = V2\<lparr>bucket_objects := (bucket_objects V2)((B, P) := None)\<rparr>"
    have "doWithRetry 0 (request (memory_delete (Some B) P)) V2 = (Inr (), V3)"
      by (rule doWithRetry_request_ok) (simp_all add: f V1_def V2_def V3_def memory_delete_def)
    with del e2 have e3: "q3 = Inr ()"
      by simp
    from e1 e2 e3 show ?thesis
      by (simp add: ok1 ok2 ok3)
  qed
qed

text \<open>
  Claim C9.  Against the store in memory, with the local archive present.  When
  \<open>store\<close> succeeds (its last log line is the success line), the object at the
  resolved bucket and key holds the content of the archive; when then \<open>retrieve\<close>,
  with the same invocation and classifier, returns normally, the target file holds the
  same content; when the following \<open>delete\<close> succeeds, there is no object at the
  resolved key.  With no fault ahead all three succeed.  This holds whatever the faults
  and the retry bound are, and for both versions of the module.
\<close>

theorem store_retrieve_delete_roundtrip:
  fixes s :: "gcs_world state"
  assumes l: "local_files (world s) archivePath = Some content"
  shows
  "(let s1 = snd (store memory_storage retries gi c archivePath s);
        r2 = retrieve memory_storage retries gi c targetArchivePath s1;
        s3 = snd (delete memory_storage retries gi c (snd r2))
    in (succeeded s1 \<longrightarrow>
          object_at (world s1) (target_bucket gi s) (target_path gi c s) = Some content)
       \<and> (succeeded s1 \<and> fst r2 = Inr () \<longrightarrow>
          local_files (world (snd r2)) targetArchivePath = Some content)
       \<and> (succeeded s3 \<longrightarrow>
          object_at (world s3) (target_bucket gi s) (target_path gi c s) = None)
       \<and> (faults (world s) = [] \<longrightarrow> succeeded s1 \<and> fst r2 = Inr () \<and> succeeded s3))
   \<and> (let s1 = snd (store_2019 memory_storage gi c archivePath s);
        r2 = retrieve_2019 memory_storage gi c targetArchivePath s1;
        s3 = snd (delete_2019 memory_storage gi c (snd r2))
    in (succeeded s1 \<longrightarrow>
          object_at (world s1) (target_bucket gi s) (target_path_2019 gi c s) = Some content)
       \<and> (succeeded s1 \<and> fst r2 = Inr () \<longrightarrow>
          local_files (world (snd r2)) targetArchivePath = Some content)
       \<and> (succeeded s3 \<longrightarrow>
          object_at (world s3) (target_bucket gi s) (target_path_2019 gi c s) = None)
       \<and> (faults (world s) = [] \<longrightarrow> succeeded s1 \<and> fst r2 = Inr () \<and> succeeded s3))"
  unfolding Let_def
  by (intro conjI impI; (elim conjE)?)
     (simp_all add: roundtrip_2020 [OF l] roundtrip_2019 [OF l])

text \<open>Claim C9 on the test invocation, from \<open>in.tar.gz\<close> to \<open>out.tar.gz\<close>.\<close>

theorem store_retrieve_delete_roundtrip_witness:
  "local_files (world (s_test [])) ''in.tar.gz'' = Some ''Test junk''
   \<and> faults (world (s_test [])) = []
   \<and> (let s1 = snd (store memory_storage 2 (gi_test ''@byrds/sweetheart-of-the-rodeo'' (Some 0))
                    ''i-am-a-pilgrim'' ''in.tar.gz'' (s_test []));
           r2 = retrieve memory_storage 2 (gi_test ''@byrds/sweetheart-of-the-rodeo'' (Some 0))
                    ''i-am-a-pilgrim'' ''out.tar.gz'' s1;
           s3 = snd (delete memory_storage 2 (gi_test ''@byrds/sweetheart-of-the-rodeo'' (Some 0))
                    ''i-am-a-pilgrim'' (snd r2))
       in succeeded s1
          \<and> object_at (world s1) (Some ''hickory-wind'') ''lazy/days/i-am-a-pilgrim/cache.tar.gz''
              = Some ''Test junk''
          \<and> fst r2 = Inr ()
          \<and> local_files (world (snd r2)) ''out.tar.gz'' = Some ''Test junk''
          \<and> succeeded s3
          \<and> object_at (world s3) (Some ''hickory-wind'') ''lazy/days/i-am-a-pilgrim/cache.tar.gz''
              = None)"
proof -
  have l: "local_files (world (s_test [])) ''in.tar.gz'' = Some ''Test junk''"
    by (simp add: s_test_def)
  have f: "faults (world (s_test [])) = []"
    by (simp add: s_test_def)
  show ?thesis
    using store_retrieve_delete_roundtrip [OF l, where retries = 2
        and gi = "gi_test ''@byrds/sweetheart-of-the-rodeo'' (Some 0)"
        and c = "''i-am-a-pilgrim''" and targetArchivePath = "''out.tar.gz''"]
      l f
    by (simp add: Let_def target_test)
qed

end
